theory Spec2Isabelle
  imports Main
begin

section \<open>Signs, terms and formulas\<close>

text \<open>
  Modelled from the spec: the data types of \<^verbatim>\<open>signs.py\<close>, \<^verbatim>\<open>formula.py\<close> and
  \<^verbatim>\<open>semantics.py\<close>, which \<^verbatim>\<open>acrq_tableau.py\<close> imports and which are missing, after
  section 3, with the class and field names the source uses. The six signs are the
  module constants \<^verbatim>\<open>t, f, e, m, n, v\<close>.
\<close>

datatype Sign = Sign_t | Sign_f | Sign_e | Sign_m | Sign_n | Sign_v

datatype Term = Constant string | Variable string

text \<open>
  \<open>BilateralPredicateFormula p ts neg\<close> carries \<^verbatim>\<open>positive_name\<close>, \<^verbatim>\<open>terms\<close> and
  \<^verbatim>\<open>is_negative\<close>. The source tests \<^verbatim>\<open>isinstance\<close> on the two atom classes and treats
  them differently, so they stay two constructors; equality is structural.
\<close>

datatype Formula =
    PredicateFormula string "Term list"
  | BilateralPredicateFormula string "Term list" bool
  | CompoundFormula string "Formula list"
  | RestrictedExistentialFormula string Formula Formula
  | RestrictedUniversalFormula string Formula Formula

datatype SignedFormula = SignedFormula (sign: Sign) (formula: Formula)

datatype TruthValue = TRUE | FALSE | UNDEFINED

record BilateralTruthValue =
  positive :: TruthValue
  negative :: TruthValue

fun is_atomic :: "Formula \<Rightarrow> bool" where
  "is_atomic (PredicateFormula p ts) = True"
| "is_atomic (BilateralPredicateFormula p ts neg) = True"
| "is_atomic _ = False"

fun terms :: "Formula \<Rightarrow> Term list" where
  "terms (PredicateFormula p ts) = ts"
| "terms (BilateralPredicateFormula p ts neg) = ts"
| "terms _ = []"

text \<open>
  Modelled from the spec: \<^verbatim>\<open>__str__\<close> of terms and formulas (\<^verbatim>\<open>formula.py\<close> is missing),
  after the surface syntax of section 6: an atom prints as its name, followed by the
  parenthesised, comma-separated terms when there are any; the dual of a bilateral
  predicate prints with a trailing star.
\<close>

fun term_str :: "Term \<Rightarrow> string" where
  "term_str (Constant c) = c"
| "term_str (Variable x) = x"

fun join :: "string \<Rightarrow> string list \<Rightarrow> string" where
  "join sep [] = []"
| "join sep [x] = x"
| "join sep (x # y # ys) = x @ sep @ join sep (y # ys)"

definition atom_str :: "string \<Rightarrow> Term list \<Rightarrow> string" where
  "atom_str p ts = (if ts = [] then p else p @ ''('' @ join '', '' (map term_str ts) @ '')'')"

fun formula_str :: "Formula \<Rightarrow> string" where
  "formula_str (PredicateFormula p ts) = atom_str p ts"
| "formula_str (BilateralPredicateFormula p ts neg) =
     atom_str (if neg then p @ ''*'' else p) ts"
| "formula_str (CompoundFormula op [a]) = op @ formula_str a"
| "formula_str (CompoundFormula op [a, b]) =
     ''('' @ formula_str a @ '' '' @ op @ '' '' @ formula_str b @ '')''"
| "formula_str (CompoundFormula op subs) = op"
| "formula_str (RestrictedExistentialFormula x a b) =
     ''[exists '' @ x @ '' '' @ formula_str a @ '']'' @ formula_str b"
| "formula_str (RestrictedUniversalFormula x a b) =
     ''[forall '' @ x @ '' '' @ formula_str a @ '']'' @ formula_str b"

text \<open>
  Modelled from the spec: Python's \<^verbatim>\<open>str\<close> of a list of terms, which the glut test uses
  to compare arguments. It prints each term with \<^verbatim>\<open>repr\<close>, which the missing
  \<^verbatim>\<open>formula.py\<close> defines; a term is rendered here by its identifier.
\<close>

definition terms_str :: "Term list \<Rightarrow> string" where
  "terms_str ts = ''['' @ join '', '' (map term_str ts) @ '']''"

section \<open>Nodes and branches\<close>

text \<open>
  Modelled from the spec: \<^verbatim>\<open>TableauNode\<close> of the missing \<^verbatim>\<open>tableau.py\<close>, after section 3:
  a node has an identifier, its signed formula, its parent and the rule that produced
  it.
\<close>

record TableauNode =
  node_id :: nat
  node_formula :: SignedFormula
  parent :: "nat option"
  produced_by :: "string option"

text \<open>
  Modelled from the spec: \<^verbatim>\<open>Branch\<close> of the missing \<^verbatim>\<open>tableau.py\<close>, after section 3,
  with the attributes \<^verbatim>\<open>acrq_tableau.py\<close> reads and writes:
  \<^verbatim>\<open>id\<close>, \<^verbatim>\<open>nodes\<close>, \<^verbatim>\<open>formula_index\<close> (per sign, from formula to node identifiers; a
  missing key is the empty collection), \<^verbatim>\<open>ground_terms\<close>, \<^verbatim>\<open>is_closed\<close>,
  \<^verbatim>\<open>_universal_instantiations\<close> and \<^verbatim>\<open>_llm_evaluated\<close>. The attributes created lazily
  with \<^verbatim>\<open>hasattr\<close> start empty. \<open>applied\<close> holds the nodes whose logical rule has
  been applied on the branch (the agenda of invariant 4). Sets of node identifiers are
  lists in insertion order, so that the loop over them is deterministic.
\<close>

record Branch =
  branch_id :: nat
  branch_nodes :: "TableauNode list"
  formula_index :: "Sign \<Rightarrow> Formula \<Rightarrow> nat list"
  ground_terms :: "Term list"
  is_closed :: bool
  universal_instantiations :: "(SignedFormula \<times> Term list) list"
  llm_evaluated :: "string set"
  applied :: "nat list"
  bilateral_pairs :: "string \<rightharpoonup> string"

datatype error = IndexError

section \<open>ACrQBranch: contradiction detection\<close>

text \<open>
  The base name and polarity that \<^verbatim>\<open>_is_bilateral_glut\<close> reads off an atom: a bilateral
  predicate gives \<^verbatim>\<open>get_base_name()\<close> and \<^verbatim>\<open>is_negative\<close>; a regular predicate whose name
  ends with a star gives the name without it and \<open>True\<close>. \<open>None\<close> for any other formula.
\<close>

definition endswith_star :: "string \<Rightarrow> bool" where
  "endswith_star s = (s \<noteq> [] \<and> last s = CHR ''*'')"

fun base_and_polarity :: "Formula \<Rightarrow> (string \<times> bool) option" where
  "base_and_polarity (BilateralPredicateFormula p ts neg) = Some (p, neg)"
| "base_and_polarity (PredicateFormula p ts) =
     (if endswith_star p then Some (butlast p, True) else Some (p, False))"
| "base_and_polarity _ = None"

text \<open>
  The loop of \<^verbatim>\<open>_is_bilateral_glut\<close> over the node identifiers indexed under the sign and
  the formula. \<^verbatim>\<open>self.nodes[node_id]\<close> raises \<^verbatim>\<open>IndexError\<close> out of range.
\<close>

fun glut_scan :: "TableauNode list \<Rightarrow> Formula \<Rightarrow> string \<Rightarrow> bool \<Rightarrow> nat list \<Rightarrow> error + bool" where
  "glut_scan nds phi base_name is_negative [] = Inr False"
| "glut_scan nds phi base_name is_negative (i # ids) =
     (if i < length nds then
        (let other = formula (node_formula (nds ! i)) in
         case base_and_polarity other of
           None \<Rightarrow> glut_scan nds phi base_name is_negative ids
         | Some (other_base, other_negative) \<Rightarrow>
             if base_name = other_base \<and> is_negative \<noteq> other_negative
                \<and> terms_str (terms phi) = terms_str (terms other)
             then Inr True
             else glut_scan nds phi base_name is_negative ids)
      else Inl IndexError)"

definition is_bilateral_glut :: "Branch \<Rightarrow> Formula \<Rightarrow> Sign \<Rightarrow> error + bool" where
  "is_bilateral_glut self phi s =
     (case base_and_polarity phi of
        None \<Rightarrow> Inr False
      | Some (base_name, is_negative) \<Rightarrow>
          glut_scan (branch_nodes self) phi base_name is_negative (formula_index self s phi))"

text \<open>
  \<^verbatim>\<open>_check_contradiction\<close>: the loop over \<^verbatim>\<open>[t, f, e]\<close>, returning at the first sign other
  than the new one under which the formula is indexed.
\<close>

fun check_signs :: "Branch \<Rightarrow> Formula \<Rightarrow> Sign \<Rightarrow> Sign list \<Rightarrow> error + bool" where
  "check_signs self phi s [] = Inr False"
| "check_signs self phi s (other_sign # rest) =
     (if other_sign \<noteq> s \<and> formula_index self other_sign phi \<noteq> [] then
        (if s = Sign_t \<and> other_sign = Sign_t then
           (case is_bilateral_glut self phi s of
              Inl err \<Rightarrow> Inl err
            | Inr glut \<Rightarrow> if glut then Inr False else Inr True)
         else Inr True)
      else check_signs self phi s rest)"

definition check_contradiction :: "Branch \<Rightarrow> SignedFormula \<Rightarrow> error + bool" where
  "check_contradiction self new_formula =
     check_signs self (formula new_formula) (sign new_formula) [Sign_t, Sign_f, Sign_e]"

text \<open>
  The plain distinct-sign check, as the claim words it: the index holds the identical
  formula under a sign of \<open>{t, f, e}\<close> other than the new formula's sign.
\<close>

definition distinct_sign_check :: "Branch \<Rightarrow> SignedFormula \<Rightarrow> bool" where
  "distinct_sign_check self new_formula =
     (\<exists>other_sign \<in> {Sign_t, Sign_f, Sign_e}.
        other_sign \<noteq> sign new_formula
        \<and> formula_index self other_sign (formula new_formula) \<noteq> [])"

section \<open>Rules\<close>

text \<open>
  Modelled from the spec: the rule value of section 4.2, as the two missing classes the
  source uses. \<^verbatim>\<open>FergusonRule\<close> is what the rule modules return (the attributes
  \<^verbatim>\<open>name\<close>, \<^verbatim>\<open>conclusions\<close>, \<^verbatim>\<open>instantiation_constant\<close> and the method
  \<^verbatim>\<open>is_branching()\<close> are read by \<^verbatim>\<open>_get_applicable_rule\<close>); \<^verbatim>\<open>RuleInfo\<close> is what the
  engine works with, with the fields that its constructor calls in the source name.
\<close>

record FergusonRule =
  fr_name :: string
  fr_conclusions :: "SignedFormula list list"
  fr_instantiation_constant :: "Term option"

definition is_branching :: "FergusonRule \<Rightarrow> bool" where
  "is_branching r = (length (fr_conclusions r) > 1)"

datatype RuleType = ALPHA | BETA

record RuleInfo =
  name :: string
  rule_type :: RuleType
  priority :: nat
  complexity_cost :: nat
  conclusions :: "SignedFormula list list"
  instantiation_constant :: "Term option"

text \<open>
  The rows of the rule table for the restricted quantifiers depend on the instantiation
  protocol (fresh constants, constants already used), which the specification leaves
  partly open. They are a parameter: given the signed formula, the counter of the
  fresh-constant generator, the constants of the branch and the constants already
  used, the rule (if any) and the new counter.
\<close>

type_synonym quantifier_rules =
  "SignedFormula \<Rightarrow> nat \<Rightarrow> Term list \<Rightarrow> Term list option \<Rightarrow> FergusonRule option \<times> nat"

definition mk_rule :: "string \<Rightarrow> SignedFormula list list \<Rightarrow> FergusonRule" where
  "mk_rule nm cs = \<lparr>fr_name = nm, fr_conclusions = cs, fr_instantiation_constant = None\<rparr>"

text \<open>
  Modelled from the spec: \<^verbatim>\<open>wkrq_rules.get_applicable_rule\<close> (the module is missing), the
  rows of the table of section 4.2 for the connectives \<^verbatim>\<open>~\<close>, \<^verbatim>\<open>&\<close>, \<^verbatim>\<open>|\<close>, \<^verbatim>\<open>->\<close>, one
  conclusion list for each branch of the row.
\<close>

definition negation_rule :: "Sign \<Rightarrow> Formula \<Rightarrow> FergusonRule option" where
  "negation_rule s a =
     (case s of
        Sign_t \<Rightarrow> Some (mk_rule ''t-negation'' [[SignedFormula Sign_f a]])
      | Sign_f \<Rightarrow> Some (mk_rule ''f-negation'' [[SignedFormula Sign_t a]])
      | Sign_e \<Rightarrow> Some (mk_rule ''e-negation'' [[SignedFormula Sign_e a]])
      | Sign_m \<Rightarrow> Some (mk_rule ''m-negation'' [[SignedFormula Sign_n a]])
      | Sign_n \<Rightarrow> Some (mk_rule ''n-negation'' [[SignedFormula Sign_m a]])
      | Sign_v \<Rightarrow> None)"

definition conjunction_rule :: "Sign \<Rightarrow> Formula \<Rightarrow> Formula \<Rightarrow> FergusonRule option" where
  "conjunction_rule s a b =
     (case s of
        Sign_t \<Rightarrow> Some (mk_rule ''t-conjunction'' [[SignedFormula Sign_t a, SignedFormula Sign_t b]])
      | Sign_f \<Rightarrow> Some (mk_rule ''f-conjunction''
          [[SignedFormula Sign_f a], [SignedFormula Sign_f b],
           [SignedFormula Sign_e a, SignedFormula Sign_e b]])
      | Sign_e \<Rightarrow> Some (mk_rule ''e-conjunction'' [[SignedFormula Sign_e a], [SignedFormula Sign_e b]])
      | _ \<Rightarrow> None)"

definition disjunction_rule :: "Sign \<Rightarrow> Formula \<Rightarrow> Formula \<Rightarrow> FergusonRule option" where
  "disjunction_rule s a b =
     (case s of
        Sign_t \<Rightarrow> Some (mk_rule ''t-disjunction''
          [[SignedFormula Sign_t a], [SignedFormula Sign_t b],
           [SignedFormula Sign_e a, SignedFormula Sign_e b]])
      | Sign_f \<Rightarrow> Some (mk_rule ''f-disjunction'' [[SignedFormula Sign_f a, SignedFormula Sign_f b]])
      | Sign_e \<Rightarrow> Some (mk_rule ''e-disjunction'' [[SignedFormula Sign_e a], [SignedFormula Sign_e b]])
      | _ \<Rightarrow> None)"

definition implication_rule :: "Sign \<Rightarrow> Formula \<Rightarrow> Formula \<Rightarrow> FergusonRule option" where
  "implication_rule s a b =
     (case s of
        Sign_t \<Rightarrow> Some (mk_rule ''t-implication''
          [[SignedFormula Sign_f a], [SignedFormula Sign_t b],
           [SignedFormula Sign_e a, SignedFormula Sign_e b]])
      | Sign_f \<Rightarrow> Some (mk_rule ''f-implication'' [[SignedFormula Sign_t a, SignedFormula Sign_f b]])
      | Sign_e \<Rightarrow> Some (mk_rule ''e-implication'' [[SignedFormula Sign_e a], [SignedFormula Sign_e b]])
      | _ \<Rightarrow> None)"

definition connective_rule :: "Sign \<Rightarrow> string \<Rightarrow> Formula list \<Rightarrow> FergusonRule option" where
  "connective_rule s op subs =
     (case subs of
        [a] \<Rightarrow> if op = ''~'' then negation_rule s a else None
      | [a, b] \<Rightarrow>
          if op = ''&'' then conjunction_rule s a b
          else if op = ''|'' then disjunction_rule s a b
          else if op = ''->'' then implication_rule s a b
          else None
      | _ \<Rightarrow> None)"

text \<open>The rows \<open>m: \<phi>\<close> and \<open>n: \<phi>\<close> of the table, for a formula of any shape.\<close>

definition meta_sign_rule :: "Sign \<Rightarrow> Formula \<Rightarrow> FergusonRule option" where
  "meta_sign_rule s phi =
     (case s of
        Sign_m \<Rightarrow> Some (mk_rule ''m-branching'' [[SignedFormula Sign_t phi], [SignedFormula Sign_f phi]])
      | Sign_n \<Rightarrow> Some (mk_rule ''n-branching'' [[SignedFormula Sign_f phi], [SignedFormula Sign_e phi]])
      | _ \<Rightarrow> None)"

text \<open>
  The selector: the row of the outermost connective where there is one (so that
  \<open>m: ~\<phi>\<close> and \<open>n: ~\<phi>\<close> take their own rows), then the rows of the signs \<open>m\<close> and \<open>n\<close>,
  then, for a quantified formula, the parameter.
\<close>

definition get_wkrq_rule ::
  "quantifier_rules \<Rightarrow> SignedFormula \<Rightarrow> nat \<Rightarrow> Term list \<Rightarrow> Term list option
     \<Rightarrow> FergusonRule option \<times> nat" where
  "get_wkrq_rule quant sf counter existing used =
     (case (case formula sf of
              CompoundFormula op subs \<Rightarrow> connective_rule (sign sf) op subs
            | _ \<Rightarrow> None) of
        Some r \<Rightarrow> (Some r, counter)
      | None \<Rightarrow>
          (case meta_sign_rule (sign sf) (formula sf) of
             Some r \<Rightarrow> (Some r, counter)
           | None \<Rightarrow>
               (case formula sf of
                  RestrictedExistentialFormula x a b \<Rightarrow> quant sf counter existing used
                | RestrictedUniversalFormula x a b \<Rightarrow> quant sf counter existing used
                | _ \<Rightarrow> (None, counter))))"

text \<open>
  Modelled from the spec: \<^verbatim>\<open>acrq_ferguson_rules.get_acrq_rule\<close> (the module is missing),
  after section 4.3: the negation of an atom is rewritten to the bilateral dual under
  the same sign; every other formula falls through to the table of section 4.2.
\<close>

definition get_acrq_rule ::
  "quantifier_rules \<Rightarrow> SignedFormula \<Rightarrow> nat \<Rightarrow> Term list \<Rightarrow> Term list option
     \<Rightarrow> FergusonRule option \<times> nat" where
  "get_acrq_rule quant sf counter existing used =
     (case formula sf of
        CompoundFormula op [PredicateFormula p ts] \<Rightarrow>
          if op = ''~''
          then (Some (mk_rule ''bilateral-negation''
                  [[SignedFormula (sign sf) (BilateralPredicateFormula p ts True)]]), counter)
          else get_wkrq_rule quant sf counter existing used
      | CompoundFormula op [BilateralPredicateFormula p ts neg] \<Rightarrow>
          if op = ''~''
          then (Some (mk_rule ''bilateral-negation''
                  [[SignedFormula (sign sf) (BilateralPredicateFormula p ts (\<not> neg))]]), counter)
          else get_wkrq_rule quant sf counter existing used
      | _ \<Rightarrow> get_wkrq_rule quant sf counter existing used)"

section \<open>The tableau\<close>

text \<open>
  The oracle is a function from an atomic formula to a bilateral truth value;
  \<open>None\<close> is the call raising an exception.
\<close>

type_synonym evaluator = "Formula \<Rightarrow> BilateralTruthValue option"

text \<open>
  The state of an \<^verbatim>\<open>ACrQTableau\<close>. Branch objects are shared between \<^verbatim>\<open>branches\<close>,
  \<^verbatim>\<open>open_branches\<close> and \<^verbatim>\<open>closed_branches\<close> and mutated in place, so the state holds a
  store from branch identifiers to branches (\<open>branch_count\<close> of them allocated) and the
  two lists hold identifiers. \<open>oracle_calls\<close> is a ghost field: the log of the calls of
  \<^verbatim>\<open>llm_evaluator\<close>, each with the branch it was made for.
\<close>

record Tableau =
  tableau_nodes :: "TableauNode list"
  node_counter :: nat
  branches :: "nat \<Rightarrow> Branch"
  branch_count :: nat
  open_branches :: "nat list"
  closed_branches :: "nat list"
  max_branching_factor :: nat
  early_termination :: bool
  llm_evaluator :: "evaluator option"
  constant_counter :: nat
  tableau_bilateral_pairs :: "string \<rightharpoonup> string"
  logic_system :: string
  oracle_calls :: "(nat \<times> Formula) list"

text \<open>
  What the engine takes from code that is not among the sources and that no property
  below depends on: the quantifier rows of the rule table, and \<^verbatim>\<open>Tableau.apply_rule\<close> of
  the base class, which expands a branch by a logical rule.
\<close>

record Base =
  quantifier_rows :: quantifier_rules
  super_apply_rule :: "Tableau \<Rightarrow> TableauNode \<Rightarrow> nat \<Rightarrow> RuleInfo \<Rightarrow> Tableau"

subsection \<open>The oracle rule\<close>

definition evaluation_key :: "Formula \<Rightarrow> string" where
  "evaluation_key phi = ''llm_evaluated_'' @ formula_str phi"

fun sign_of_value :: "TruthValue \<Rightarrow> Sign" where
  "sign_of_value TRUE = Sign_t"
| "sign_of_value FALSE = Sign_f"
| "sign_of_value UNDEFINED = Sign_e"

text \<open>
  The dual that \<^verbatim>\<open>_create_llm_evaluation_rule\<close> builds: \<^verbatim>\<open>get_dual()\<close> of a bilateral
  predicate (the other polarity), and for a regular predicate the negative bilateral
  predicate of the same name and terms.
\<close>

fun dual_formula :: "Formula \<Rightarrow> Formula option" where
  "dual_formula (BilateralPredicateFormula p ts neg) = Some (BilateralPredicateFormula p ts (\<not> neg))"
| "dual_formula (PredicateFormula p ts) = Some (BilateralPredicateFormula p ts True)"
| "dual_formula _ = None"

definition create_llm_evaluation_rule ::
  "Tableau \<Rightarrow> SignedFormula \<Rightarrow> Branch \<Rightarrow> RuleInfo option \<times> Tableau" where
  "create_llm_evaluation_rule self signed_formula branch =
     (case llm_evaluator self of
        None \<Rightarrow> (None, self)
      | Some oracle_fn \<Rightarrow>
          if \<not> is_atomic (formula signed_formula) then (None, self)
          else if evaluation_key (formula signed_formula) \<in> llm_evaluated branch then (None, self)
          else
            (let self1 = self\<lparr>oracle_calls :=
                   oracle_calls self @ [(branch_id branch, formula signed_formula)]\<rparr>
             in case oracle_fn (formula signed_formula) of
                  None \<Rightarrow> (None, self1)
                | Some bilateral_value \<Rightarrow>
                    (let conclusion_set =
                           [SignedFormula (sign_of_value (positive bilateral_value))
                              (formula signed_formula)]
                           @ (case dual_formula (formula signed_formula) of
                                Some dual \<Rightarrow>
                                  [SignedFormula (sign_of_value (negative bilateral_value)) dual]
                              | None \<Rightarrow> []);
                         conclusions = (if conclusion_set \<noteq> [] then [conclusion_set] else [])
                     in if conclusions = [] then (None, self1)
                        else (Some \<lparr>name = ''LLM-Eval('' @ formula_str (formula signed_formula) @ '')'',
                                    rule_type = ALPHA,
                                    priority = 5,
                                    complexity_cost = length conclusion_set,
                                    conclusions = conclusions,
                                    instantiation_constant = None\<rparr>, self1))))"

subsection \<open>Rule selection for a node\<close>

definition used_constants :: "Branch \<Rightarrow> SignedFormula \<Rightarrow> Term list option" where
  "used_constants branch signed_formula =
     (case formula signed_formula of
        RestrictedUniversalFormula x a b \<Rightarrow>
          (case map_of (universal_instantiations branch) signed_formula of
             Some cs \<Rightarrow> Some cs
           | None \<Rightarrow> Some [])
      | _ \<Rightarrow> None)"

definition get_applicable_rule ::
  "Base \<Rightarrow> Tableau \<Rightarrow> SignedFormula \<Rightarrow> Branch \<Rightarrow> RuleInfo option \<times> Tableau" where
  "get_applicable_rule B self signed_formula branch =
     (case get_acrq_rule (quantifier_rows B) signed_formula (constant_counter self)
             (ground_terms branch) (used_constants branch signed_formula) of
        (Some ferguson_rule, counter) \<Rightarrow>
          (let rt = (if is_branching ferguson_rule then BETA else ALPHA)
           in (Some \<lparr>name = fr_name ferguson_rule,
                      rule_type = rt,
                      priority = (if rt = ALPHA then 10 else 20),
                      complexity_cost = length (fr_conclusions ferguson_rule),
                      conclusions = fr_conclusions ferguson_rule,
                      instantiation_constant = fr_instantiation_constant ferguson_rule\<rparr>,
               self\<lparr>constant_counter := counter\<rparr>))
      | (None, counter) \<Rightarrow>
          if \<not> Option.is_none (llm_evaluator self) \<and> is_atomic (formula signed_formula)
          then create_llm_evaluation_rule (self\<lparr>constant_counter := counter\<rparr>) signed_formula branch
          else (None, self\<lparr>constant_counter := counter\<rparr>))"

subsection \<open>Adding a formula to a branch\<close>

fun term_constants :: "Term list \<Rightarrow> Term list" where
  "term_constants [] = []"
| "term_constants (Constant c # ts) = Constant c # term_constants ts"
| "term_constants (Variable x # ts) = term_constants ts"

fun constants_of :: "Formula \<Rightarrow> Term list" where
  "constants_of (PredicateFormula p ts) = term_constants ts"
| "constants_of (BilateralPredicateFormula p ts neg) = term_constants ts"
| "constants_of (CompoundFormula op subs) = concat (map constants_of subs)"
| "constants_of (RestrictedExistentialFormula x a b) = constants_of a @ constants_of b"
| "constants_of (RestrictedUniversalFormula x a b) = constants_of a @ constants_of b"

fun add_terms :: "Term list \<Rightarrow> Term list \<Rightarrow> Term list" where
  "add_terms gs [] = gs"
| "add_terms gs (c # cs) = add_terms (if c \<in> set gs then gs else gs @ [c]) cs"

text \<open>
  Modelled from the spec: \<^verbatim>\<open>Branch.add_formula\<close> (\<^verbatim>\<open>tableau.py\<close> is missing), after
  section 4.4: on inserting a signed formula the branch probes the index with
  \<^verbatim>\<open>_check_contradiction\<close> (the ACrQ override above) and is marked closed on a hit; the
  node is appended, the formula indexed under its sign and its constants added to the
  ground terms. The result says whether the branch is closed, as \<^verbatim>\<open>apply_rule\<close> reads it.
\<close>

definition add_formula :: "Branch \<Rightarrow> SignedFormula \<Rightarrow> TableauNode \<Rightarrow> error + (bool \<times> Branch)" where
  "add_formula self signed_formula node =
     (case check_contradiction self signed_formula of
        Inl err \<Rightarrow> Inl err
      | Inr contradiction \<Rightarrow>
          (let idx = formula_index self;
               s = sign signed_formula;
               phi = formula signed_formula;
               self1 = self\<lparr>branch_nodes := branch_nodes self @ [node],
                           formula_index := idx(s := (idx s)(phi := idx s phi @ [node_id node])),
                           ground_terms := add_terms (ground_terms self) (constants_of phi),
                           is_closed := (is_closed self \<or> contradiction)\<rparr>
           in Inr (is_closed self1, self1)))"

subsection \<open>Creating the tableau\<close>

text \<open>\<^verbatim>\<open>_extract_bilateral_pairs\<close>: both directions of every bilateral predicate found.\<close>

fun extract_bilateral_pairs :: "(string \<rightharpoonup> string) \<Rightarrow> Formula \<Rightarrow> (string \<rightharpoonup> string)" where
  "extract_bilateral_pairs bp (BilateralPredicateFormula p ts neg) =
     (bp(p \<mapsto> p @ ''*''))(p @ ''*'' \<mapsto> p)"
| "extract_bilateral_pairs bp (CompoundFormula op subs) =
     fold (\<lambda>sub acc. extract_bilateral_pairs acc sub) subs bp"
| "extract_bilateral_pairs bp (RestrictedExistentialFormula x a b) =
     extract_bilateral_pairs (extract_bilateral_pairs bp a) b"
| "extract_bilateral_pairs bp (RestrictedUniversalFormula x a b) =
     extract_bilateral_pairs (extract_bilateral_pairs bp a) b"
| "extract_bilateral_pairs bp (PredicateFormula p ts) = bp"

definition identify_bilateral_predicates ::
  "(string \<rightharpoonup> string) \<Rightarrow> SignedFormula list \<Rightarrow> (string \<rightharpoonup> string)" where
  "identify_bilateral_predicates bp formulas =
     fold (\<lambda>sf acc. extract_bilateral_pairs acc (formula sf)) formulas bp"

text \<open>\<^verbatim>\<open>_create_branch\<close>: a fresh \<^verbatim>\<open>ACrQBranch\<close> with a copy of the bilateral pairs.\<close>

definition create_branch :: "(string \<rightharpoonup> string) \<Rightarrow> nat \<Rightarrow> Branch" where
  "create_branch pairs bid =
     \<lparr>branch_id = bid, branch_nodes = [], formula_index = (\<lambda>s phi. []), ground_terms = [],
      is_closed = False, universal_instantiations = [], llm_evaluated = {}, applied = [],
      bilateral_pairs = pairs\<rparr>"

text \<open>
  Modelled from the spec: \<^verbatim>\<open>Tableau.__init__\<close> of the base class (missing). It creates
  the first branch, with identifier 0, and adds every initial signed formula to it, one
  node each, through \<open>add_formula\<close>; a branch closed by the initial formulas goes to the
  closed branches.
\<close>

fun add_initial :: "Tableau \<Rightarrow> SignedFormula list \<Rightarrow> error + Tableau" where
  "add_initial self [] = Inr self"
| "add_initial self (sf # sfs) =
     (let node = \<lparr>node_id = node_counter self, node_formula = sf, parent = None,
                   produced_by = None\<rparr>
      in case add_formula (branches self 0) sf node of
           Inl err \<Rightarrow> Inl err
         | Inr (closed, b) \<Rightarrow>
             add_initial (self\<lparr>tableau_nodes := tableau_nodes self @ [node],
                               node_counter := node_counter self + 1,
                               branches := (branches self)(0 := b)\<rparr>) sfs)"

text \<open>
  \<^verbatim>\<open>ACrQTableau.__init__\<close>. The default of \<^verbatim>\<open>max_branching_factor\<close> is set in the missing
  base class, so it is an argument here; \<^verbatim>\<open>early_termination\<close> defaults to true
  (section 6) and is switched off when an evaluator is given. The bilateral pairs are
  still empty when the base class creates the first branch, and are identified after.
\<close>

definition ACrQTableau :: "nat \<Rightarrow> SignedFormula list \<Rightarrow> evaluator option \<Rightarrow> error + Tableau" where
  "ACrQTableau max_branches initial_formulas oracle_fn =
     (let self0 = \<lparr>tableau_nodes = [], node_counter = 0,
                   branches = create_branch Map.empty, branch_count = 1,
                   open_branches = [0], closed_branches = [],
                   max_branching_factor = max_branches, early_termination = True,
                   llm_evaluator = oracle_fn, constant_counter = 0,
                   tableau_bilateral_pairs = Map.empty, logic_system = [],
                   oracle_calls = []\<rparr>
      in case add_initial self0 initial_formulas of
           Inl err \<Rightarrow> Inl err
         | Inr self1 \<Rightarrow>
             (let self2 = (if is_closed (branches self1 0)
                           then self1\<lparr>open_branches := [], closed_branches := [0]\<rparr>
                           else self1)
              in Inr (self2\<lparr>logic_system := ''ACrQ'',
                            constant_counter := 0,
                            early_termination := (if \<not> Option.is_none oracle_fn then False
                                                  else early_termination self2),
                            tableau_bilateral_pairs :=
                              identify_bilateral_predicates Map.empty initial_formulas\<rparr>)))"

subsection \<open>Completion, branch selection and rule prioritisation\<close>

text \<open>
  Modelled from the spec: the rule still to be applied to a node of a branch, decided
  without calling the oracle. A node whose logical rule has not been applied on the
  branch has that rule pending; an atomic formula not yet marked evaluated has the
  oracle rule pending when an oracle is installed (section 4.7); the oracle rule is
  non-branching.
\<close>

definition pending_rule :: "Base \<Rightarrow> Tableau \<Rightarrow> Branch \<Rightarrow> TableauNode \<Rightarrow> RuleType option" where
  "pending_rule B self branch node =
     (let sf = node_formula node in
      if node_id node \<in> set (applied branch) then None
      else
        (case fst (get_acrq_rule (quantifier_rows B) sf (constant_counter self)
                     (ground_terms branch) (used_constants branch sf)) of
           Some r \<Rightarrow> Some (if is_branching r then BETA else ALPHA)
         | None \<Rightarrow>
             if \<not> Option.is_none (llm_evaluator self) \<and> is_atomic (formula sf)
                \<and> evaluation_key (formula sf) \<notin> llm_evaluated branch
             then Some ALPHA else None))"

text \<open>
  Modelled from the spec: \<^verbatim>\<open>Tableau.is_complete\<close> (missing), after section 4.6, step 4(a):
  no open branch has an applicable rule.
\<close>

definition is_complete :: "Base \<Rightarrow> Tableau \<Rightarrow> bool" where
  "is_complete B self =
     list_all (\<lambda>bid. list_all (\<lambda>node. pending_rule B self (branches self bid) node = None)
                       (branch_nodes (branches self bid)))
       (open_branches self)"

text \<open>
  Modelled from the spec: \<^verbatim>\<open>Tableau._select_optimal_branch\<close> (missing), after section 4.6,
  step 1: the open branch with the fewest unapplied non-branching rules, the smaller
  identifier on a tie; none when no branch is open.
\<close>

definition unapplied_alpha :: "Base \<Rightarrow> Tableau \<Rightarrow> nat \<Rightarrow> nat" where
  "unapplied_alpha B self bid =
     length (filter (\<lambda>node. pending_rule B self (branches self bid) node = Some ALPHA)
               (branch_nodes (branches self bid)))"

definition preferred :: "Base \<Rightarrow> Tableau \<Rightarrow> nat \<Rightarrow> nat \<Rightarrow> bool" where
  "preferred B self c best =
     (unapplied_alpha B self c < unapplied_alpha B self best
      \<or> (unapplied_alpha B self c = unapplied_alpha B self best \<and> c < best))"

definition select_optimal_branch :: "Base \<Rightarrow> Tableau \<Rightarrow> nat option" where
  "select_optimal_branch B self =
     (case open_branches self of
        [] \<Rightarrow> None
      | b # bs \<Rightarrow> Some (fold (\<lambda>c best. if preferred B self c best then c else best) bs b))"

text \<open>
  Modelled from the spec: \<^verbatim>\<open>Tableau._get_prioritized_rules\<close> (missing), after section 4.6,
  step 2: scan the nodes of the selected branch for applicable rules, through
  \<^verbatim>\<open>_get_applicable_rule\<close>, and sort by priority, then complexity cost, then node
  identifier. Each call of \<^verbatim>\<open>_get_applicable_rule\<close> may call the oracle and advance the
  counter of fresh constants, so the tableau is threaded through the scan.
\<close>

fun collect_rules ::
  "Base \<Rightarrow> Tableau \<Rightarrow> Branch \<Rightarrow> TableauNode list \<Rightarrow> (TableauNode \<times> RuleInfo) list \<times> Tableau" where
  "collect_rules B self branch [] = ([], self)"
| "collect_rules B self branch (node # rest) =
     (if node_id node \<in> set (applied branch) then collect_rules B self branch rest
      else
        (case get_applicable_rule B self (node_formula node) branch of
           (None, self1) \<Rightarrow> collect_rules B self1 branch rest
         | (Some r, self1) \<Rightarrow>
             (case collect_rules B self1 branch rest of
                (rs, self2) \<Rightarrow> ((node, r) # rs, self2))))"

definition rule_le :: "TableauNode \<times> RuleInfo \<Rightarrow> TableauNode \<times> RuleInfo \<Rightarrow> bool" where
  "rule_le x y =
     (priority (snd x) < priority (snd y)
      \<or> (priority (snd x) = priority (snd y)
          \<and> (complexity_cost (snd x) < complexity_cost (snd y)
              \<or> (complexity_cost (snd x) = complexity_cost (snd y)
                  \<and> node_id (fst x) \<le> node_id (fst y)))))"

fun insert_rule ::
  "TableauNode \<times> RuleInfo \<Rightarrow> (TableauNode \<times> RuleInfo) list \<Rightarrow> (TableauNode \<times> RuleInfo) list" where
  "insert_rule x [] = [x]"
| "insert_rule x (y # ys) = (if rule_le x y then x # y # ys else y # insert_rule x ys)"

definition sort_rules :: "(TableauNode \<times> RuleInfo) list \<Rightarrow> (TableauNode \<times> RuleInfo) list" where
  "sort_rules rs = foldr insert_rule rs []"

definition get_prioritized_rules ::
  "Base \<Rightarrow> Tableau \<Rightarrow> nat \<Rightarrow> (TableauNode \<times> RuleInfo) list \<times> Tableau" where
  "get_prioritized_rules B self bid =
     (case collect_rules B self (branches self bid) (branch_nodes (branches self bid)) of
        (rs, self1) \<Rightarrow> (sort_rules rs, self1))"

subsection \<open>Applying a rule\<close>

definition startswith :: "string \<Rightarrow> string \<Rightarrow> bool" where
  "startswith s pre = (take (length pre) s = pre)"

text \<open>
  One step of the loop of \<^verbatim>\<open>apply_rule\<close> over the conclusions of an oracle rule: a
  new node for the signed formula, appended to the nodes of the tableau and made a
  child of the premise node, then added to the branch. The Boolean is the result of
  \<^verbatim>\<open>branch.add_formula\<close>.
\<close>

definition add_conclusion ::
  "Tableau \<Rightarrow> TableauNode \<Rightarrow> nat \<Rightarrow> string \<Rightarrow> SignedFormula \<Rightarrow> error + (bool \<times> Tableau)" where
  "add_conclusion self node bid rule_name sf =
     (let new_node = \<lparr>node_id = node_counter self, node_formula = sf,
                       parent = Some (node_id node), produced_by = Some rule_name\<rparr>;
          self1 = self\<lparr>tableau_nodes := tableau_nodes self @ [new_node],
                      node_counter := node_counter self + 1\<rparr>
      in case add_formula (branches self1 bid) sf new_node of
           Inl err \<Rightarrow> Inl err
         | Inr (closed, b) \<Rightarrow> Inr (closed, self1\<lparr>branches := (branches self1)(bid := b)\<rparr>))"

text \<open>
  The loop itself: at the first conclusion that closes the branch, the branch moves
  from the open to the closed branches and the method returns. The Boolean says
  whether that happened.
\<close>

fun add_llm_conclusions ::
  "Tableau \<Rightarrow> TableauNode \<Rightarrow> nat \<Rightarrow> string \<Rightarrow> SignedFormula list \<Rightarrow> error + (bool \<times> Tableau)" where
  "add_llm_conclusions self node bid rule_name [] = Inr (False, self)"
| "add_llm_conclusions self node bid rule_name (sf # rest) =
     (case add_conclusion self node bid rule_name sf of
        Inl err \<Rightarrow> Inl err
      | Inr (closed, self2) \<Rightarrow>
          if closed then
            Inr (True,
                 if bid \<in> set (open_branches self2)
                 then self2\<lparr>open_branches := remove1 bid (open_branches self2),
                            closed_branches := closed_branches self2 @ [bid]\<rparr>
                 else self2)
          else add_llm_conclusions self2 node bid rule_name rest)"

definition mark_evaluated :: "Tableau \<Rightarrow> nat \<Rightarrow> Formula \<Rightarrow> Tableau" where
  "mark_evaluated self bid phi =
     self\<lparr>branches := (branches self)
        (bid := (branches self bid)
           \<lparr>llm_evaluated := insert (evaluation_key phi) (llm_evaluated (branches self bid))\<rparr>)\<rparr>"

definition apply_rule :: "Base \<Rightarrow> Tableau \<Rightarrow> TableauNode \<Rightarrow> nat \<Rightarrow> RuleInfo \<Rightarrow> error + Tableau" where
  "apply_rule B self node bid rule_info =
     (if startswith (name rule_info) ''LLM-Eval'' then
        (case conclusions rule_info of
           [conclusion_set] \<Rightarrow>
             (case add_llm_conclusions self node bid (name rule_info) conclusion_set of
                Inl err \<Rightarrow> Inl err
              | Inr (closed, self1) \<Rightarrow>
                  if closed then Inr self1
                  else Inr (mark_evaluated self1 bid (formula (node_formula node))))
         | _ \<Rightarrow> Inr self)
      else Inr (super_apply_rule B self node bid rule_info))"

subsection \<open>Model extraction\<close>

record Model =
  valuations :: "(string \<times> TruthValue) list"
  constants :: "Term list"

text \<open>
  Modelled from the spec: \<^verbatim>\<open>Tableau._extract_model\<close> of the base class (missing), after
  section 4.8: the domain is the ground terms of the branch; an atom on the branch is
  true if it occurs under \<open>t\<close>, false under \<open>f\<close>, undefined under \<open>e\<close>, and false by
  default. \<^verbatim>\<open>ACrQTableau._extract_model\<close> wraps the model in an \<^verbatim>\<open>ACrQModel\<close> over the same
  valuations and constants; its bilateral valuations are derived from them.
\<close>

definition atom_value :: "Branch \<Rightarrow> Formula \<Rightarrow> TruthValue" where
  "atom_value branch phi =
     (if formula_index branch Sign_t phi \<noteq> [] then TRUE
      else if formula_index branch Sign_f phi \<noteq> [] then FALSE
      else if formula_index branch Sign_e phi \<noteq> [] then UNDEFINED
      else FALSE)"

definition extract_model :: "Branch \<Rightarrow> Model option" where
  "extract_model branch =
     Some \<lparr>valuations =
             map (\<lambda>phi. (formula_str phi, atom_value branch phi))
               (remdups (filter is_atomic (map (\<lambda>node. formula (node_formula node))
                                              (branch_nodes branch)))),
           constants = ground_terms branch\<rparr>"

subsection \<open>The construction loop\<close>

definition max_iterations :: nat where
  "max_iterations = 1000"

text \<open>
  The test at the end of the loop body. Without an evaluator the source's \<^verbatim>\<open>break\<close>
  stands inside the \<^verbatim>\<open>for\<close> loop over the open branches and leaves only that loop, so
  the construction goes on. With an evaluator the loop is left when every atomic
  formula on every open branch is marked evaluated.
\<close>

definition all_evaluated :: "Tableau \<Rightarrow> bool" where
  "all_evaluated self =
     list_all (\<lambda>bid. list_all (\<lambda>node.
                  \<not> (is_atomic (formula (node_formula node))
                     \<and> evaluation_key (formula (node_formula node))
                          \<notin> llm_evaluated (branches self bid)))
                (branch_nodes (branches self bid)))
       (open_branches self)"

function construct_loop :: "Base \<Rightarrow> Tableau \<Rightarrow> nat \<Rightarrow> error + (Tableau \<times> nat)" where
  "construct_loop B self iteration =
     (if open_branches self \<noteq> [] \<and> \<not> is_complete B self \<and> iteration < max_iterations
         \<and> branch_count self < max_branching_factor self
      then
        (case select_optimal_branch B self of
           None \<Rightarrow> Inr (self, iteration + 1)
         | Some selected_branch \<Rightarrow>
             (case get_prioritized_rules B self selected_branch of
                ([], self1) \<Rightarrow> Inr (self1, iteration + 1)
              | ((node, rule_info) # others, self1) \<Rightarrow>
                  (case apply_rule B self1 node selected_branch rule_info of
                     Inl err \<Rightarrow> Inl err
                   | Inr self2 \<Rightarrow>
                       if early_termination self2 \<and> open_branches self2 \<noteq> []
                          \<and> \<not> Option.is_none (llm_evaluator self2) \<and> all_evaluated self2
                       then Inr (self2, iteration + 1)
                       else construct_loop B self2 (iteration + 1))))
      else Inr (self, iteration))"
  by pat_completeness auto
termination
  by (relation "measure (\<lambda>(B, self, iteration). max_iterations - iteration)") auto

text \<open>
  The models of the open branches, without duplicates, and the result. \<^verbatim>\<open>TableauResult\<close>
  is declared in the missing \<^verbatim>\<open>tableau.py\<close>; its fields here are the keyword arguments
  of the constructor call in \<^verbatim>\<open>construct\<close>, which are those of section 6.
\<close>

fun collect_models :: "Tableau \<Rightarrow> nat list \<Rightarrow> Model list \<Rightarrow> Model list" where
  "collect_models self [] models = models"
| "collect_models self (bid # rest) models =
     (if \<not> is_closed (branches self bid) then
        (case extract_model (branches self bid) of
           Some model \<Rightarrow>
             if model \<notin> set models then collect_models self rest (models @ [model])
             else collect_models self rest models
         | None \<Rightarrow> collect_models self rest models)
      else collect_models self rest models)"

record TableauResult =
  satisfiable :: bool
  models :: "Model list"
  result_closed_branches :: nat
  result_open_branches :: nat
  total_nodes :: nat
  tableau :: Tableau

definition result_of :: "Tableau \<Rightarrow> TableauResult" where
  "result_of self =
     (let models = collect_models self (open_branches self) []
      in \<lparr>satisfiable = (length models > 0),
          models = models,
          result_closed_branches = length (closed_branches self),
          result_open_branches = length (open_branches self),
          total_nodes = length (tableau_nodes self),
          tableau = self\<rparr>)"

definition construct :: "Base \<Rightarrow> Tableau \<Rightarrow> error + TableauResult" where
  "construct B self =
     (case construct_loop B self 0 of
        Inl err \<Rightarrow> Inl err
      | Inr (self1, iteration) \<Rightarrow> Inr (result_of self1))"

text \<open>
  Building a tableau from the initial signed formulas and constructing it, as the
  scripts at the top of the repository do (\<^verbatim>\<open>ACrQTableau(...).construct()\<close>).
\<close>

definition solve ::
  "Base \<Rightarrow> nat \<Rightarrow> SignedFormula list \<Rightarrow> evaluator option \<Rightarrow> error + TableauResult" where
  "solve B max_branches initial_formulas oracle_fn =
     (case ACrQTableau max_branches initial_formulas oracle_fn of
        Inl err \<Rightarrow> Inl err
      | Inr self \<Rightarrow> construct B self)"

section \<open>TheoryManager: collecting the signed formulas of a theory\<close>

text \<open>
  The fields of \<^verbatim>\<open>Statement\<close> that \<^verbatim>\<open>check_satisfiability\<close> reads, and the others that
  identify a statement. The parser \<^verbatim>\<open>parse_acrq_formula\<close> is not among the sources: it
  is a parameter, \<open>None\<close> standing for any exception it raises.
\<close>

record Statement =
  stmt_id :: string
  natural_language :: string
  stmt_formula :: "string option"
  stmt_sign :: string
  is_inferred :: bool

record InformationState =
  predicate :: string
  state :: string
  evidence :: "string list"
  info_branch_id :: "nat option"

type_synonym parser = "string \<Rightarrow> Formula option"

definition sign_map :: "string \<rightharpoonup> Sign" where
  "sign_map = [''t'' \<mapsto> Sign_t, ''f'' \<mapsto> Sign_f, ''e'' \<mapsto> Sign_e]"

text \<open>
  The loop of \<^verbatim>\<open>check_satisfiability\<close> over the statements: a statement with a non-empty
  formula that does not start with \<^verbatim>\<open>//\<close> is parsed; on success the formula is appended
  under \<^verbatim>\<open>sign_map.get(stmt.sign, t)\<close>; on an exception the statement is skipped.
\<close>

fun collect_formulas :: "parser \<Rightarrow> Statement list \<Rightarrow> SignedFormula list" where
  "collect_formulas parse [] = []"
| "collect_formulas parse (stmt # rest) =
     (case stmt_formula stmt of
        None \<Rightarrow> collect_formulas parse rest
      | Some text \<Rightarrow>
          if text \<noteq> [] \<and> \<not> startswith text ''//'' then
            (case parse text of
               Some phi \<Rightarrow>
                 SignedFormula (case sign_map (stmt_sign stmt) of Some s \<Rightarrow> s | None \<Rightarrow> Sign_t) phi
                   # collect_formulas parse rest
             | None \<Rightarrow> collect_formulas parse rest)
          else collect_formulas parse rest)"

text \<open>
  \<^verbatim>\<open>check_satisfiability\<close>. The tableau it builds is the \<^verbatim>\<open>ACrQTableau\<close> that
  \<^verbatim>\<open>theory_manager.py\<close> imports from the missing \<^verbatim>\<open>tableau.py\<close>; building it,
  constructing it and analysing the information states is the parameter
  \<open>run_tableau\<close>. The third component of the result is a ghost: the list of signed
  formulas the tableau was built from, \<open>None\<close> when no tableau was built.
\<close>

definition check_satisfiability ::
  "parser \<Rightarrow> (SignedFormula list \<Rightarrow> bool \<times> InformationState list) \<Rightarrow> Statement list
     \<Rightarrow> bool \<times> InformationState list \<times> SignedFormula list option" where
  "check_satisfiability parse run_tableau statements =
     (let formulas = collect_formulas parse statements
      in if formulas = [] then (True, [], None)
         else (case run_tableau formulas of
                 (sat, info_states) \<Rightarrow> (sat, info_states, Some formulas)))"

text \<open>
  The claim's wording of the treatment of signs, for the six signs a statement can be
  asserted with: \<open>t\<close>, \<open>f\<close> and \<open>e\<close> are kept, \<open>m\<close>, \<open>n\<close> and \<open>v\<close> become \<open>t\<close>.
\<close>

definition coerced_sign :: "string \<rightharpoonup> Sign" where
  "coerced_sign = [''t'' \<mapsto> Sign_t, ''f'' \<mapsto> Sign_f, ''e'' \<mapsto> Sign_e,
                   ''m'' \<mapsto> Sign_t, ''n'' \<mapsto> Sign_t, ''v'' \<mapsto> Sign_t]"

text \<open>
  A usable statement, in the same wording: it has a formula, which is not a comment
  and which the parser accepts.
\<close>

definition usable :: "parser \<Rightarrow> Statement \<Rightarrow> bool" where
  "usable parse stmt =
     (case stmt_formula stmt of
        None \<Rightarrow> False
      | Some text \<Rightarrow> \<not> startswith text ''//'' \<and> \<not> Option.is_none (parse text))"

section \<open>Concrete inputs\<close>

text \<open>
  An instance of the engine's parameters for the runs below, whose inputs contain no
  quantifier and on which no logical rule is applied.
\<close>

definition example_base :: Base where
  "example_base =
     \<lparr>quantifier_rows = (\<lambda>sf counter existing used. (None, counter)),
      super_apply_rule = (\<lambda>self node bid rule_info. self)\<rparr>"

definition human :: Formula where
  "human = PredicateFormula ''Human'' [Constant ''socrates'']"

definition refuting_oracle :: evaluator where
  "refuting_oracle phi = Some \<lparr>positive = FALSE, negative = TRUE\<rparr>"

definition P_a :: Formula where
  "P_a = PredicateFormula ''P'' [Constant ''a'']"

definition Q_a :: Formula where
  "Q_a = PredicateFormula ''Q'' [Constant ''a'']"

text \<open>An oracle that answers only for \<open>Q(a)\<close> and raises for every other formula.\<close>

definition failing_oracle :: evaluator where
  "failing_oracle phi =
     (if phi = Q_a then Some \<lparr>positive = TRUE, negative = FALSE\<rparr> else None)"

definition conj_PQ :: Formula where
  "conj_PQ = CompoundFormula ''&'' [P_a, Q_a]"

text \<open>A parser that knows one formula, and a theory of four statements.\<close>

definition example_parser :: parser where
  "example_parser text = (if text = ''Human(socrates)'' then Some human else None)"

definition example_statements :: "Statement list" where
  "example_statements =
     [\<lparr>stmt_id = ''S0001'', natural_language = ''socrates is a human'',
       stmt_formula = Some ''Human(socrates)'', stmt_sign = ''m'', is_inferred = False\<rparr>,
      \<lparr>stmt_id = ''S0002'', natural_language = ''what a day'',
       stmt_formula = Some ''// what a day'', stmt_sign = ''t'', is_inferred = False\<rparr>,
      \<lparr>stmt_id = ''S0003'', natural_language = ''Human(socrates'',
       stmt_formula = Some ''Human(socrates'', stmt_sign = ''f'', is_inferred = False\<rparr>,
      \<lparr>stmt_id = ''S0004'', natural_language = ''socrates is a human'',
       stmt_formula = Some ''Human(socrates)'', stmt_sign = ''f'', is_inferred = False\<rparr>]"

definition reports_satisfiable :: "SignedFormula list \<Rightarrow> bool \<times> InformationState list" where
  "reports_satisfiable formulas = (True, [])"

definition reports_unsatisfiable :: "SignedFormula list \<Rightarrow> bool \<times> InformationState list" where
  "reports_unsatisfiable formulas = (False, [])"

text \<open>An oracle that never raises: it answers \<open>\<langle>TRUE, FALSE\<rangle>\<close> for every formula.\<close>

definition verifying_oracle :: evaluator where
  "verifying_oracle phi = Some \<lparr>positive = TRUE, negative = FALSE\<rparr>"

text \<open>
  The tableau built from \<open>t: P(a)\<close> and \<open>t: Q(a)\<close> with the oracle that raises for
  \<open>P(a)\<close>, and its two nodes; and the tableau built from \<open>t: P(a) & Q(a)\<close> with room
  for one branch.
\<close>

definition two_atoms :: Tableau where
  "two_atoms = projr (ACrQTableau 100 [SignedFormula Sign_t P_a, SignedFormula Sign_t Q_a]
                        (Some failing_oracle))"

definition P_node :: TableauNode where
  "P_node = \<lparr>node_id = 0, node_formula = SignedFormula Sign_t P_a, parent = None,
              produced_by = None\<rparr>"

definition Q_node :: TableauNode where
  "Q_node = \<lparr>node_id = 1, node_formula = SignedFormula Sign_t Q_a, parent = None,
              produced_by = None\<rparr>"

definition capped :: Tableau where
  "capped = projr (ACrQTableau 1 [SignedFormula Sign_t conj_PQ] None)"

section \<open>Properties\<close>

lemma check_signs_plain:
  "check_signs self phi s ss =
     Inr (\<exists>other_sign \<in> set ss. other_sign \<noteq> s \<and> formula_index self other_sign phi \<noteq> [])"
  by (induction ss) auto

lemma check_contradiction_plain:
  "check_contradiction self sf = Inr (distinct_sign_check self sf)"
  by (simp add: check_contradiction_def distinct_sign_check_def check_signs_plain)

lemma add_formula_Inr:
  "add_formula self sf node =
     Inr (is_closed self \<or> distinct_sign_check self sf,
          self\<lparr>branch_nodes := branch_nodes self @ [node],
               formula_index := (formula_index self)(sign sf := (formula_index self (sign sf))
                    (formula sf := formula_index self (sign sf) (formula sf) @ [node_id node])),
               ground_terms := add_terms (ground_terms self) (constants_of (formula sf)),
               is_closed := (is_closed self \<or> distinct_sign_check self sf)\<rparr>)"
  by (simp add: add_formula_def check_contradiction_plain Let_def)

lemma add_initial_total: "\<exists>tab. add_initial self sfs = Inr tab"
  by (induction sfs arbitrary: self) (simp_all add: add_formula_Inr Let_def)

lemma ACrQTableau_total: "\<exists>tab. ACrQTableau k sfs ev = Inr tab"
proof -
  obtain tab where "add_initial \<lparr>tableau_nodes = [], node_counter = 0,
                   branches = create_branch Map.empty, branch_count = 1,
                   open_branches = [0], closed_branches = [],
                   max_branching_factor = k, early_termination = True,
                   llm_evaluator = ev, constant_counter = 0,
                   tableau_bilateral_pairs = Map.empty, logic_system = [],
                   oracle_calls = []\<rparr> sfs = Inr tab"
    using add_initial_total by blast
  then show ?thesis by (simp add: ACrQTableau_def Let_def)
qed

lemma add_conclusion_Inr:
  "\<exists>tab. add_conclusion self node bid nm sf
           = Inr (is_closed (branches self bid) \<or> distinct_sign_check (branches self bid) sf, tab)
         \<and> open_branches tab = open_branches self
         \<and> closed_branches tab = closed_branches self
         \<and> oracle_calls tab = oracle_calls self
         \<and> llm_evaluated (branches tab bid) = llm_evaluated (branches self bid)
         \<and> is_closed (branches tab bid)
             = (is_closed (branches self bid) \<or> distinct_sign_check (branches self bid) sf)
         \<and> formula_index (branches tab bid) (sign sf) (formula sf) \<noteq> []
         \<and> (\<forall>s phi. formula_index (branches self bid) s phi \<noteq> []
                \<longrightarrow> formula_index (branches tab bid) s phi \<noteq> [])"
  by (simp add: add_conclusion_def add_formula_Inr Let_def)

lemma add_llm_conclusions_total:
  "\<exists>r. add_llm_conclusions self node bid nm sfs = Inr r"
proof (induction sfs arbitrary: self)
  case Nil
  show ?case by auto
next
  case (Cons sf sfs)
  obtain c tab where ac: "add_conclusion self node bid nm sf = Inr (c, tab)"
    using add_conclusion_Inr[of self node bid nm sf] by blast
  show ?case
  proof (cases c)
    case True
    with ac show ?thesis by auto
  next
    case False
    with ac Cons.IH[of tab] show ?thesis by auto
  qed
qed

lemma apply_rule_total: "\<exists>tab. apply_rule B self node bid r = Inr tab"
proof (cases "startswith (name r) ''LLM-Eval''")
  case False
  then show ?thesis by (simp add: apply_rule_def)
next
  case True
  show ?thesis
  proof (cases "conclusions r")
    case Nil
    with True show ?thesis by (simp add: apply_rule_def)
  next
    case (Cons c cs)
    show ?thesis
    proof (cases cs)
      case Nil
      obtain closed tab where "add_llm_conclusions self node bid (name r) c = Inr (closed, tab)"
        using add_llm_conclusions_total by (metis surj_pair)
      with True Cons Nil show ?thesis by (simp add: apply_rule_def)
    next
      case (Cons d ds)
      with True \<open>conclusions r = c # cs\<close> show ?thesis by (simp add: apply_rule_def)
    qed
  qed
qed



lemma create_llm_evaluation_rule_calls:
  "create_llm_evaluation_rule self sf branch = (r, self') \<Longrightarrow>
   \<exists>new. oracle_calls self' = oracle_calls self @ new
       \<and> (\<forall>c \<in> set new. fst c = branch_id branch \<and> evaluation_key (snd c) \<notin> llm_evaluated branch)"
  by (auto simp add: create_llm_evaluation_rule_def Let_def split: option.splits if_splits)

lemma get_applicable_rule_calls:
  "get_applicable_rule B self sf branch = (r, self') \<Longrightarrow>
   \<exists>new. oracle_calls self' = oracle_calls self @ new
       \<and> (\<forall>c \<in> set new. fst c = branch_id branch \<and> evaluation_key (snd c) \<notin> llm_evaluated branch)"
  unfolding get_applicable_rule_def
  by (auto simp add: Let_def split: prod.splits option.splits if_splits
           dest!: create_llm_evaluation_rule_calls)

lemma collect_rules_calls:
  "collect_rules B self branch nodes = (rs, self') \<Longrightarrow>
   \<exists>new. oracle_calls self' = oracle_calls self @ new
       \<and> (\<forall>c \<in> set new. fst c = branch_id branch \<and> evaluation_key (snd c) \<notin> llm_evaluated branch)"
proof (induction nodes arbitrary: self rs self')
  case Nil
  then show ?case by simp
next
  case (Cons node rest)
  show ?case
  proof (cases "node_id node \<in> set (applied branch)")
    case True
    with Cons show ?thesis by simp
  next
    case False
    obtain r self1 where ga: "get_applicable_rule B self (node_formula node) branch = (r, self1)"
      by (cases "get_applicable_rule B self (node_formula node) branch")
    obtain rs1 self2 where cr: "collect_rules B self1 branch rest = (rs1, self2)"
      by (cases "collect_rules B self1 branch rest")
    have "self' = self2"
      using Cons.prems False ga cr by (cases r) auto
    moreover obtain new1 where n1: "oracle_calls self1 = oracle_calls self @ new1"
      "\<forall>c \<in> set new1. fst c = branch_id branch \<and> evaluation_key (snd c) \<notin> llm_evaluated branch"
      using get_applicable_rule_calls[OF ga] by blast
    moreover obtain new2 where n2: "oracle_calls self2 = oracle_calls self1 @ new2"
      "\<forall>c \<in> set new2. fst c = branch_id branch \<and> evaluation_key (snd c) \<notin> llm_evaluated branch"
      using Cons.IH[OF cr] by blast
    ultimately show ?thesis
      by (intro exI[of _ "new1 @ new2"]) auto
  qed
qed

lemma add_llm_conclusions_closed:
  "add_llm_conclusions self node bid nm sfs = Inr (closed, tab) \<Longrightarrow>
   closed \<Longrightarrow> is_closed (branches tab bid)"
proof (induction sfs arbitrary: self)
  case Nil
  then show ?case by simp
next
  case (Cons sf sfs)
  obtain c self2 where ac: "add_conclusion self node bid nm sf = Inr (c, self2)"
    and cl: "is_closed (branches self2 bid) = c"
    using add_conclusion_Inr[of self node bid nm sf] by auto
  show ?case
  proof (cases c)
    case True
    with Cons.prems(1) ac cl show ?thesis by (auto split: if_splits)
  next
    case False
    with Cons.prems(1) ac
    have "add_llm_conclusions self2 node bid nm sfs = Inr (closed, tab)" by simp
    from Cons.IH[OF this Cons.prems(2)] show ?thesis .
  qed
qed

lemma collect_models_nonempty:
  "collect_models self bs acc \<noteq> [] \<longleftrightarrow>
     acc \<noteq> [] \<or> (\<exists>bid \<in> set bs. \<not> is_closed (branches self bid))"
  by (induction bs arbitrary: acc) (auto simp add: extract_model_def)

lemma collect_formulas_filter:
  "parse [] = None \<Longrightarrow>
   collect_formulas parse statements =
     map (\<lambda>stmt. SignedFormula (case sign_map (stmt_sign stmt) of Some s \<Rightarrow> s | None \<Rightarrow> Sign_t)
                    (the (parse (the (stmt_formula stmt)))))
       (filter (usable parse) statements)"
  by (induction statements) (auto simp add: usable_def split: option.splits)

lemma sign_map_coerced:
  "x \<in> dom coerced_sign \<Longrightarrow>
   (case sign_map x of Some s \<Rightarrow> s | None \<Rightarrow> Sign_t) = the (coerced_sign x)"
  by (auto simp add: coerced_sign_def sign_map_def split: if_splits)

text \<open>
  The loop returns, and its counter, which starts at the value given and grows by one
  with every execution of the body, never passes \<open>max_iterations\<close>.
\<close>

lemma construct_loop_bound:
  "\<exists>tab k. construct_loop B self i = Inr (tab, k) \<and> i \<le> k \<and> k \<le> max i max_iterations"
proof (induction B self i rule: construct_loop.induct)
  case (1 B self iteration)
  show ?case
  proof (cases "open_branches self \<noteq> [] \<and> \<not> is_complete B self \<and> iteration < max_iterations
         \<and> branch_count self < max_branching_factor self")
    case False
    then show ?thesis by (subst construct_loop.simps) auto
  next
    case guard: True
    show ?thesis
    proof (cases "select_optimal_branch B self")
      case None
      with guard show ?thesis by (subst construct_loop.simps) auto
    next
      case (Some sb)
      obtain rs self1 where gp: "get_prioritized_rules B self sb = (rs, self1)"
        by (cases "get_prioritized_rules B self sb")
      show ?thesis
      proof (cases rs)
        case Nil
        with guard Some gp show ?thesis by (subst construct_loop.simps) auto
      next
        case (Cons nr others)
        obtain node rule_info where nr: "nr = (node, rule_info)" by (cases nr)
        obtain self2 where ap: "apply_rule B self1 node sb rule_info = Inr self2"
          using apply_rule_total by blast
        show ?thesis
        proof (cases "early_termination self2 \<and> open_branches self2 \<noteq> []
                          \<and> \<not> Option.is_none (llm_evaluator self2) \<and> all_evaluated self2")
          case True
          with guard Some gp Cons nr ap show ?thesis by (subst construct_loop.simps) auto
        next
          case False
          have "\<exists>tab k. construct_loop B self2 (iteration + 1) = Inr (tab, k)
                 \<and> iteration + 1 \<le> k \<and> k \<le> max (iteration + 1) max_iterations"
            using "1.IH"[OF guard Some gp[symmetric] Cons nr[symmetric] ap False] by simp
          then obtain tab k where "construct_loop B self2 (iteration + 1) = Inr (tab, k)"
            "iteration + 1 \<le> k" "k \<le> max (iteration + 1) max_iterations" by blast
          with guard Some gp Cons nr ap False show ?thesis
            by (subst construct_loop.simps) auto
        qed
      qed
    qed
  qed
qed

lemmas engine_defs = ACrQTableau_def add_formula_Inr distinct_sign_check_def create_branch_def
  identify_bilateral_predicates_def is_complete_def pending_rule_def get_acrq_rule_def
  get_wkrq_rule_def meta_sign_rule_def used_constants_def evaluation_key_def
  select_optimal_branch_def get_prioritized_rules_def get_applicable_rule_def
  create_llm_evaluation_rule_def sort_rules_def apply_rule_def add_conclusion_def startswith_def
  mark_evaluated_def result_of_def construct_def extract_model_def atom_value_def
  all_evaluated_def max_iterations_def atom_str_def solve_def Let_def

lemmas example_defs = two_atoms_def P_node_def Q_node_def
  capped_def P_a_def Q_a_def conj_PQ_def failing_oracle_def example_base_def

subsection \<open>The closure check of an ACrQ branch\<close>

text \<open>
  C9. For every signed formula added to an ACrQ branch, \<^verbatim>\<open>_check_contradiction\<close>
  returns true exactly when the per-sign index already holds the identical formula
  under a sign of \<open>{t, f, e}\<close> other than the new formula's sign. The whitelist test for
  bilateral gluts is never reached: the result does not depend on the nodes that the
  test would read and no error of the test can come out. A new formula signed \<open>t\<close> is
  checked against the entries of the same formula under \<open>f\<close> and \<open>e\<close> only, so a
  predicate and its dual, being different formulas, never collide.
\<close>

theorem check_contradiction_is_distinct_sign_check:
  "check_contradiction self sf = Inr (distinct_sign_check self sf)
   \<and> check_contradiction (self\<lparr>branch_nodes := nds\<rparr>) sf = check_contradiction self sf
   \<and> check_contradiction self (SignedFormula Sign_t phi)
       = Inr (formula_index self Sign_f phi \<noteq> [] \<or> formula_index self Sign_e phi \<noteq> [])"
  by (auto simp add: check_contradiction_plain distinct_sign_check_def)

theorem check_contradiction_is_distinct_sign_check_witness:
  "check_contradiction
     ((create_branch Map.empty 0)\<lparr>formula_index := (\<lambda>s phi. if s = Sign_t \<and> phi = human then [0] else [])\<rparr>)
     (SignedFormula Sign_f human) = Inr True
   \<and> check_contradiction
     ((create_branch Map.empty 0)\<lparr>formula_index := (\<lambda>s phi. if s = Sign_t \<and> phi = human then [0] else [])\<rparr>)
     (SignedFormula Sign_t (BilateralPredicateFormula ''Human'' [Constant ''socrates''] True)) = Inr False"
  using check_contradiction_is_distinct_sign_check
          [of "(create_branch Map.empty 0)\<lparr>formula_index := (\<lambda>s phi. if s = Sign_t \<and> phi = human then [0] else [])\<rparr>"
              "SignedFormula Sign_f human" "[]"
              "BilateralPredicateFormula ''Human'' [Constant ''socrates''] True"]
  by (simp add: distinct_sign_check_def human_def)

subsection \<open>Termination of the construction\<close>

text \<open>
  C7. Every construction returns a result, and the loop of \<^verbatim>\<open>construct\<close> executes its
  body at most \<open>max_iterations = 1000\<close> times, whatever the tableau, the rules and the
  oracle: the counter, started at 0 and increased once per execution of the body, is at
  most 1000 when the loop is left.
\<close>

theorem construct_returns_within_max_iterations:
  "max_iterations = 1000
   \<and> (\<exists>self' k. construct_loop B self 0 = Inr (self', k) \<and> k \<le> max_iterations
         \<and> construct B self = Inr (result_of self'))"
proof -
  obtain tab k where "construct_loop B self 0 = Inr (tab, k)" "k \<le> max 0 max_iterations"
    using construct_loop_bound[of B self 0] by blast
  then show ?thesis by (auto simp add: construct_def max_iterations_def)
qed

theorem construct_returns_within_max_iterations_witness:
  "\<exists>self' k. construct_loop example_base
                 (projr (ACrQTableau 100 [SignedFormula Sign_t human] (Some refuting_oracle))) 0
               = Inr (self', k)
            \<and> k \<le> 1000
            \<and> construct example_base
                 (projr (ACrQTableau 100 [SignedFormula Sign_t human] (Some refuting_oracle)))
               = Inr (result_of self')"
  using construct_returns_within_max_iterations
          [of example_base
              "projr (ACrQTableau 100 [SignedFormula Sign_t human] (Some refuting_oracle))"]
  unfolding max_iterations_def by blast

subsection \<open>Gluts and sign conflicts\<close>

text \<open>
  C1. For every bilateral predicate \<open>p\<close> and argument tuple \<open>ts\<close>, the ACrQ tableau
  built from \<open>t: p(ts)\<close> and \<open>t: p*(ts)\<close> is satisfiable, with one open and no closed
  branch, whether the two atoms are bilateral predicates or the regular predicates
  named \<open>p\<close> and \<open>p*\<close>. And for two distinct signs of \<open>{t, f, e}\<close>, adding one and the same
  formula to a branch under the first and then under the second closes the branch.
\<close>

theorem glut_is_satisfiable_and_sign_conflict_closes:
  "(\<exists>r. solve B k [SignedFormula Sign_t (BilateralPredicateFormula p ts False),
                    SignedFormula Sign_t (BilateralPredicateFormula p ts True)] None = Inr r
        \<and> satisfiable r \<and> result_open_branches r = 1 \<and> result_closed_branches r = 0)
   \<and> (\<exists>r. solve B k [SignedFormula Sign_t (PredicateFormula p ts),
                      SignedFormula Sign_t (PredicateFormula (p @ ''*'') ts)] None = Inr r
        \<and> satisfiable r \<and> result_open_branches r = 1 \<and> result_closed_branches r = 0)
   \<and> (s1 \<in> {Sign_t, Sign_f, Sign_e} \<longrightarrow> s2 \<in> {Sign_t, Sign_f, Sign_e} \<longrightarrow> s1 \<noteq> s2 \<longrightarrow>
        (\<exists>c b1 b2. add_formula b (SignedFormula s1 phi) n1 = Inr (c, b1)
                  \<and> add_formula b1 (SignedFormula s2 phi) n2 = Inr (True, b2)
                  \<and> is_closed b2))"
proof (intro conjI impI)
  show "\<exists>r. solve B k [SignedFormula Sign_t (BilateralPredicateFormula p ts False),
                    SignedFormula Sign_t (BilateralPredicateFormula p ts True)] None = Inr r
        \<and> satisfiable r \<and> result_open_branches r = 1 \<and> result_closed_branches r = 0"
    by (simp add: engine_defs)
  show "\<exists>r. solve B k [SignedFormula Sign_t (PredicateFormula p ts),
                      SignedFormula Sign_t (PredicateFormula (p @ ''*'') ts)] None = Inr r
        \<and> satisfiable r \<and> result_open_branches r = 1 \<and> result_closed_branches r = 0"
    by (simp add: engine_defs)
next
  assume "s1 \<in> {Sign_t, Sign_f, Sign_e}" "s2 \<in> {Sign_t, Sign_f, Sign_e}" "s1 \<noteq> s2"
  then show "\<exists>c b1 b2. add_formula b (SignedFormula s1 phi) n1 = Inr (c, b1)
                  \<and> add_formula b1 (SignedFormula s2 phi) n2 = Inr (True, b2)
                  \<and> is_closed b2"
    by (auto simp add: add_formula_Inr distinct_sign_check_def)
qed

theorem glut_is_satisfiable_and_sign_conflict_closes_witness:
  "(\<exists>r. solve example_base 100
           [SignedFormula Sign_t (BilateralPredicateFormula ''Flying'' [Constant ''tweety''] False),
            SignedFormula Sign_t (BilateralPredicateFormula ''Flying'' [Constant ''tweety''] True)]
           None = Inr r
        \<and> satisfiable r \<and> result_open_branches r = 1 \<and> result_closed_branches r = 0)
   \<and> (\<exists>c b1 b2. add_formula (create_branch Map.empty 0) (SignedFormula Sign_t human)
                   \<lparr>node_id = 0, node_formula = SignedFormula Sign_t human, parent = None,
                    produced_by = None\<rparr> = Inr (c, b1)
              \<and> add_formula b1 (SignedFormula Sign_f human)
                   \<lparr>node_id = 1, node_formula = SignedFormula Sign_f human, parent = None,
                    produced_by = None\<rparr> = Inr (True, b2)
              \<and> is_closed b2)"
  using glut_is_satisfiable_and_sign_conflict_closes
          [of example_base 100 "''Flying''" "[Constant ''tweety'']" Sign_t Sign_f
              "create_branch Map.empty 0" human
              "\<lparr>node_id = 0, node_formula = SignedFormula Sign_t human, parent = None,
                produced_by = None\<rparr>"
              "\<lparr>node_id = 1, node_formula = SignedFormula Sign_f human, parent = None,
                produced_by = None\<rparr>"]
  by simp

subsection \<open>The oracle rule\<close>




subsection \<open>The rule table\<close>

text \<open>
  C2. For all formulas \<open>\<phi>\<close> and \<open>\<psi>\<close>, the rule for \<open>t: \<phi> | \<psi>\<close> has exactly the three
  conclusion branches \<open>[t: \<phi>]\<close>, \<open>[t: \<psi>]\<close>, \<open>[e: \<phi>, e: \<psi>]\<close>, and the rule for
  \<open>t: \<phi> -> \<psi>\<close> exactly the three branches \<open>[f: \<phi>]\<close>, \<open>[t: \<psi>]\<close>, \<open>[e: \<phi>, e: \<psi>]\<close>,
  in the wKrQ selector and in the ACrQ selector.
\<close>

theorem t_disjunction_and_t_implication_have_three_branches:
  "map_option fr_conclusions
     (fst (get_wkrq_rule quant (SignedFormula Sign_t (CompoundFormula ''|'' [phi, psi]))
             counter existing used))
     = Some [[SignedFormula Sign_t phi], [SignedFormula Sign_t psi],
             [SignedFormula Sign_e phi, SignedFormula Sign_e psi]]
   \<and> map_option fr_conclusions
     (fst (get_wkrq_rule quant (SignedFormula Sign_t (CompoundFormula ''->'' [phi, psi]))
             counter existing used))
     = Some [[SignedFormula Sign_f phi], [SignedFormula Sign_t psi],
             [SignedFormula Sign_e phi, SignedFormula Sign_e psi]]
   \<and> map_option fr_conclusions
     (fst (get_acrq_rule quant (SignedFormula Sign_t (CompoundFormula ''|'' [phi, psi]))
             counter existing used))
     = Some [[SignedFormula Sign_t phi], [SignedFormula Sign_t psi],
             [SignedFormula Sign_e phi, SignedFormula Sign_e psi]]
   \<and> map_option fr_conclusions
     (fst (get_acrq_rule quant (SignedFormula Sign_t (CompoundFormula ''->'' [phi, psi]))
             counter existing used))
     = Some [[SignedFormula Sign_f phi], [SignedFormula Sign_t psi],
             [SignedFormula Sign_e phi, SignedFormula Sign_e psi]]"
  by (simp add: get_acrq_rule_def get_wkrq_rule_def connective_rule_def disjunction_rule_def
        implication_rule_def mk_rule_def split: Formula.split list.split)


theorem t_disjunction_and_t_implication_have_three_branches_witness:
  "map_option fr_conclusions
     (fst (get_wkrq_rule (quantifier_rows example_base)
             (SignedFormula Sign_t (CompoundFormula ''|'' [P_a, Q_a])) 0 [] None))
     = Some [[SignedFormula Sign_t P_a], [SignedFormula Sign_t Q_a],
             [SignedFormula Sign_e P_a, SignedFormula Sign_e Q_a]]
   \<and> map_option fr_conclusions
     (fst (get_wkrq_rule (quantifier_rows example_base)
             (SignedFormula Sign_t (CompoundFormula ''->'' [P_a, Q_a])) 0 [] None))
     = Some [[SignedFormula Sign_f P_a], [SignedFormula Sign_t Q_a],
             [SignedFormula Sign_e P_a, SignedFormula Sign_e Q_a]]"
  using t_disjunction_and_t_implication_have_three_branches
          [of "quantifier_rows example_base" P_a Q_a 0 "[]" None]
  by blast

text \<open>
  The rows for \<open>m: ~\<phi>\<close> and \<open>n: ~\<phi>\<close> of the modelled table swap the two signs.
\<close>

lemma m_negation_and_n_negation_swap:
  "map_option fr_conclusions
     (fst (get_wkrq_rule quant (SignedFormula Sign_m (CompoundFormula ''~'' [phi]))
             counter existing used)) = Some [[SignedFormula Sign_n phi]]
   \<and> map_option fr_conclusions
     (fst (get_wkrq_rule quant (SignedFormula Sign_n (CompoundFormula ''~'' [phi]))
             counter existing used)) = Some [[SignedFormula Sign_m phi]]"
  by (simp add: get_wkrq_rule_def connective_rule_def negation_rule_def mk_rule_def)


subsection \<open>The signs m and n in the closure check\<close>

text \<open>
  C3, at the input where the code departs from it. \<^verbatim>\<open>_check_contradiction\<close> restricts
  only the sign already indexed to \<open>{t, f, e}\<close>, not the sign of the new formula: on a
  branch that holds \<open>t: P(a)\<close> the formula \<open>m: P(a)\<close> is reported as a contradiction,
  and so is \<open>n: P(a)\<close> on a branch that holds \<open>f: P(a)\<close>. The tableau built from
  \<open>t: P(a)\<close> and \<open>m: P(a)\<close> comes out unsatisfiable with its branch closed.
\<close>

theorem m_signed_formula_closes_branch:
  "check_contradiction
     ((create_branch Map.empty 0)\<lparr>formula_index := (\<lambda>s phi. if s = Sign_t \<and> phi = P_a then [0] else [])\<rparr>)
     (SignedFormula Sign_m P_a) = Inr True
   \<and> check_contradiction
     ((create_branch Map.empty 0)\<lparr>formula_index := (\<lambda>s phi. if s = Sign_f \<and> phi = P_a then [0] else [])\<rparr>)
     (SignedFormula Sign_n P_a) = Inr True
   \<and> \<not> isl (solve example_base 100 [SignedFormula Sign_t P_a, SignedFormula Sign_m P_a] None)
   \<and> \<not> satisfiable (projr (solve example_base 100 [SignedFormula Sign_t P_a, SignedFormula Sign_m P_a] None))
   \<and> result_closed_branches (projr (solve example_base 100 [SignedFormula Sign_t P_a, SignedFormula Sign_m P_a] None)) = 1"
  by (simp add: engine_defs check_contradiction_plain P_a_def example_base_def)

subsection \<open>How often the oracle is called\<close>

text \<open>
  The memo works once it is written: when an atomic formula is marked evaluated on a
  branch, the oracle rule for it returns nothing and leaves the tableau, and so the log
  of oracle calls, as it is; every oracle call made while the rules of a branch are
  collected is made for that branch and for a formula not marked evaluated on it; and
  applying an oracle rule without closing the branch marks the formula of its premise.
\<close>

lemma marked_formula_is_not_asked_again:
  "(evaluation_key phi \<in> llm_evaluated branch \<longrightarrow>
      create_llm_evaluation_rule self (SignedFormula s phi) branch = (None, self))
   \<and> (collect_rules B self branch nodes = (rs, self') \<longrightarrow>
        (\<exists>new. oracle_calls self' = oracle_calls self @ new
            \<and> (\<forall>c \<in> set new. fst c = branch_id branch
                   \<and> evaluation_key (snd c) \<notin> llm_evaluated branch)))
   \<and> (startswith (name r) ''LLM-Eval'' \<longrightarrow> conclusions r = [cs] \<longrightarrow>
        apply_rule B self node bid r = Inr tab \<longrightarrow> \<not> is_closed (branches tab bid) \<longrightarrow>
        evaluation_key (formula (node_formula node)) \<in> llm_evaluated (branches tab bid))"
proof (intro conjI impI)
  assume "evaluation_key phi \<in> llm_evaluated branch"
  then show "create_llm_evaluation_rule self (SignedFormula s phi) branch = (None, self)"
    by (simp add: create_llm_evaluation_rule_def split: option.splits)
next
  assume "collect_rules B self branch nodes = (rs, self')"
  then show "\<exists>new. oracle_calls self' = oracle_calls self @ new
            \<and> (\<forall>c \<in> set new. fst c = branch_id branch
                   \<and> evaluation_key (snd c) \<notin> llm_evaluated branch)"
    by (rule collect_rules_calls)
next
  assume sw: "startswith (name r) ''LLM-Eval''" and cs: "conclusions r = [cs]"
    and ap: "apply_rule B self node bid r = Inr tab" and op: "\<not> is_closed (branches tab bid)"
  obtain closed tab1 where al: "add_llm_conclusions self node bid (name r) cs = Inr (closed, tab1)"
    using add_llm_conclusions_total by (metis surj_pair)
  have tab: "tab = (if closed then tab1 else mark_evaluated tab1 bid (formula (node_formula node)))"
    using sw cs ap al by (simp add: apply_rule_def split: if_splits)
  have "\<not> closed"
  proof
    assume closed
    with add_llm_conclusions_closed[OF al] tab op show False by simp
  qed
  with tab show "evaluation_key (formula (node_formula node)) \<in> llm_evaluated (branches tab bid)"
    by (simp add: mark_evaluated_def)
qed

text \<open>
  C5, at the input where the code departs from it. The oracle is called while the rules
  of a branch are collected, for every atomic formula not yet marked, but only the
  first rule of the sorted list is applied and only its formula is marked. With an
  oracle that never raises, the construction from \<open>t: P(a)\<close> and \<open>t: Q(a)\<close> asks about
  \<open>Q(a)\<close> in the first scan, applies the rule for \<open>P(a)\<close>, and asks about \<open>Q(a)\<close> again
  in the second scan: two calls for one formula on branch 0.
\<close>

theorem oracle_asked_twice_about_answered_formula:
  "\<not> isl (solve example_base 100 [SignedFormula Sign_t P_a, SignedFormula Sign_t Q_a]
             (Some verifying_oracle))
   \<and> count_list (oracle_calls (tableau (projr (solve example_base 100
          [SignedFormula Sign_t P_a, SignedFormula Sign_t Q_a] (Some verifying_oracle)))))
        (0, Q_a) = 2
   \<and> take 3 (oracle_calls (tableau (projr (solve example_base 100
          [SignedFormula Sign_t P_a, SignedFormula Sign_t Q_a] (Some verifying_oracle)))))
        = [(0, P_a), (0, Q_a), (0, Q_a)]"
  by (simp add: engine_defs P_a_def Q_a_def verifying_oracle_def example_base_def rule_le_def)

subsection \<open>An oracle that raises\<close>

text \<open>
  C6. If the oracle raises for an atomic formula, the oracle rule yields no rule, hence
  no conclusion, and changes neither the nodes nor any branch of the tableau, so the
  formula is not marked evaluated; the scan of the branch for rules goes on with the
  remaining nodes; and \<^verbatim>\<open>construct\<close>, like building the tableau and constructing it,
  returns a result and no error, for every tableau and every oracle.
\<close>

theorem oracle_exception_is_caught:
  "(llm_evaluator self = Some ev \<longrightarrow> ev phi = None \<longrightarrow>
      fst (create_llm_evaluation_rule self (SignedFormula s phi) branch) = None
    \<and> branches (snd (create_llm_evaluation_rule self (SignedFormula s phi) branch)) = branches self
    \<and> tableau_nodes (snd (create_llm_evaluation_rule self (SignedFormula s phi) branch))
        = tableau_nodes self
    \<and> open_branches (snd (create_llm_evaluation_rule self (SignedFormula s phi) branch))
        = open_branches self
    \<and> closed_branches (snd (create_llm_evaluation_rule self (SignedFormula s phi) branch))
        = closed_branches self
    \<and> (is_atomic phi \<longrightarrow> s \<noteq> Sign_m \<longrightarrow> s \<noteq> Sign_n \<longrightarrow>
        node_formula node = SignedFormula s phi \<longrightarrow> node_id node \<notin> set (applied branch) \<longrightarrow>
          fst (get_applicable_rule B self (SignedFormula s phi) branch) = None
        \<and> branches (snd (get_applicable_rule B self (SignedFormula s phi) branch)) = branches self
        \<and> collect_rules B self branch (node # rest)
            = collect_rules B (snd (get_applicable_rule B self (SignedFormula s phi) branch))
                branch rest))
   \<and> (\<exists>res. construct B self = Inr res)
   \<and> (\<exists>res. solve B k initial_formulas oracle_fn = Inr res)"
proof (intro conjI impI)
  show "\<exists>res. construct B self = Inr res"
    using construct_loop_bound[of B self 0] by (auto simp add: construct_def)
  show "\<exists>res. solve B k initial_formulas oracle_fn = Inr res"
  proof -
    obtain tab where "ACrQTableau k initial_formulas oracle_fn = Inr tab"
      using ACrQTableau_total by blast
    moreover obtain tab' i where "construct_loop B tab 0 = Inr (tab', i)"
      using construct_loop_bound[of B tab 0] by blast
    ultimately show ?thesis by (simp add: solve_def construct_def)
  qed
next
  assume ev: "llm_evaluator self = Some ev" "ev phi = None"
  then show "fst (create_llm_evaluation_rule self (SignedFormula s phi) branch) = None"
    "branches (snd (create_llm_evaluation_rule self (SignedFormula s phi) branch)) = branches self"
    "tableau_nodes (snd (create_llm_evaluation_rule self (SignedFormula s phi) branch))
        = tableau_nodes self"
    "open_branches (snd (create_llm_evaluation_rule self (SignedFormula s phi) branch))
        = open_branches self"
    "closed_branches (snd (create_llm_evaluation_rule self (SignedFormula s phi) branch))
        = closed_branches self"
    by (simp_all add: create_llm_evaluation_rule_def Let_def)
  assume at: "is_atomic phi" and s: "s \<noteq> Sign_m" "s \<noteq> Sign_n"
    and nf: "node_formula node = SignedFormula s phi" and na: "node_id node \<notin> set (applied branch)"
  have norule: "get_acrq_rule (quantifier_rows B) (SignedFormula s phi) (constant_counter self)
             (ground_terms branch) (used_constants branch (SignedFormula s phi))
          = (None, constant_counter self)"
    using at s by (cases phi; cases s)
      (simp_all add: get_acrq_rule_def get_wkrq_rule_def meta_sign_rule_def)
  have ga: "get_applicable_rule B self (SignedFormula s phi) branch
      = create_llm_evaluation_rule (self\<lparr>constant_counter := constant_counter self\<rparr>)
          (SignedFormula s phi) branch"
    using ev at by (simp add: get_applicable_rule_def norule)
  show g1: "fst (get_applicable_rule B self (SignedFormula s phi) branch) = None"
    using ev by (simp add: ga create_llm_evaluation_rule_def Let_def)
  show "branches (snd (get_applicable_rule B self (SignedFormula s phi) branch)) = branches self"
    using ev by (simp add: ga create_llm_evaluation_rule_def Let_def)
  show "collect_rules B self branch (node # rest)
            = collect_rules B (snd (get_applicable_rule B self (SignedFormula s phi) branch))
                branch rest"
    using g1 nf na
    by (cases "get_applicable_rule B self (SignedFormula s phi) branch") simp
qed


theorem oracle_exception_is_caught_witness:
  "fst (create_llm_evaluation_rule two_atoms (SignedFormula Sign_t P_a) (branches two_atoms 0))
     = None
   \<and> branches (snd (create_llm_evaluation_rule two_atoms (SignedFormula Sign_t P_a)
                      (branches two_atoms 0))) = branches two_atoms
   \<and> collect_rules example_base two_atoms (branches two_atoms 0) [P_node, Q_node]
       = collect_rules example_base
           (snd (get_applicable_rule example_base two_atoms (SignedFormula Sign_t P_a)
                   (branches two_atoms 0)))
           (branches two_atoms 0) [Q_node]
   \<and> (\<exists>res. construct example_base two_atoms = Inr res)
   \<and> (\<exists>res. solve example_base 100 [SignedFormula Sign_t P_a, SignedFormula Sign_t Q_a]
               (Some failing_oracle) = Inr res)
   \<and> total_nodes (projr (solve example_base 100
                             [SignedFormula Sign_t P_a, SignedFormula Sign_t Q_a]
                             (Some failing_oracle))) = 4"
proof -
  have h0: "total_nodes (projr (solve example_base 100
                             [SignedFormula Sign_t P_a, SignedFormula Sign_t Q_a]
                             (Some failing_oracle))) = 4"
    by (simp add: engine_defs P_a_def Q_a_def failing_oracle_def example_base_def rule_le_def)
  have h1: "llm_evaluator two_atoms = Some failing_oracle"
    by (simp add: two_atoms_def engine_defs)
  have h2: "failing_oracle P_a = None"
    by (simp add: failing_oracle_def P_a_def Q_a_def)
  have h3: "is_atomic P_a" by (simp add: P_a_def)
  have h4: "Sign_t \<noteq> Sign_m" "Sign_t \<noteq> Sign_n" by simp_all
  have h5: "node_formula P_node = SignedFormula Sign_t P_a" by (simp add: P_node_def)
  have h6: "node_id P_node \<notin> set (applied (branches two_atoms 0))"
    by (simp add: two_atoms_def engine_defs)
  from oracle_exception_is_caught
         [of two_atoms failing_oracle P_a Sign_t "branches two_atoms 0" P_node example_base
             "[Q_node]" 100 "[SignedFormula Sign_t P_a, SignedFormula Sign_t Q_a]"
             "Some failing_oracle"]
       h0 h1 h2 h3 h4 h5 h6
  show ?thesis by blast
qed

subsection \<open>Reaching a cap\<close>

text \<open>
  C8, as stated, fails: \<^verbatim>\<open>construct\<close> builds its result from the six fields
  \<^verbatim>\<open>satisfiable\<close>, \<^verbatim>\<open>models\<close>, \<^verbatim>\<open>closed_branches\<close>, \<^verbatim>\<open>open_branches\<close>, \<^verbatim>\<open>total_nodes\<close> and
  \<^verbatim>\<open>tableau\<close>, however the loop was left. With room for one branch only, the tableau
  built from \<open>t: P(a) & Q(a)\<close> stops at the cap with the rule for the conjunction still
  pending, and the result is this record and nothing more.
\<close>

theorem capped_run_result_has_no_incomplete_flag:
  "\<not> isl (solve example_base 1 [SignedFormula Sign_t conj_PQ] None)
   \<and> \<not> branch_count (tableau (projr (solve example_base 1 [SignedFormula Sign_t conj_PQ] None)))
        < max_branching_factor (tableau (projr (solve example_base 1 [SignedFormula Sign_t conj_PQ] None)))
   \<and> \<not> is_complete example_base (tableau (projr (solve example_base 1 [SignedFormula Sign_t conj_PQ] None)))
   \<and> projr (solve example_base 1 [SignedFormula Sign_t conj_PQ] None)
       = \<lparr>satisfiable = True,
          models = [\<lparr>valuations = [], constants = [Constant ''a'']\<rparr>],
          result_closed_branches = 0,
          result_open_branches = 1,
          total_nodes = 1,
          tableau = tableau (projr (solve example_base 1 [SignedFormula Sign_t conj_PQ] None))\<rparr>"
  by (simp add: engine_defs conj_PQ_def P_a_def Q_a_def example_base_def connective_rule_def
        conjunction_rule_def mk_rule_def is_branching_def)


text \<open>
  C8, amended. At whatever count of iterations the branching-factor cap is found
  reached, and whenever the counter has reached the iteration cap, the loop is left
  with the tableau as it stands; in every case
  \<^verbatim>\<open>construct\<close> returns, without an error, the ordinary result built from the tableau
  as it stands, and the result is satisfiable exactly when some open branch that is
  not closed is left.
\<close>

theorem cap_reached_returns_ordinary_result:
  "(\<not> branch_count self < max_branching_factor self \<longrightarrow> construct B self = Inr (result_of self))
   \<and> construct_loop B self max_iterations = Inr (self, max_iterations)
   \<and> (\<not> branch_count self < max_branching_factor self \<longrightarrow>
        construct_loop B self i = Inr (self, i))
   \<and> (\<not> i < max_iterations \<longrightarrow> construct_loop B self i = Inr (self, i))
   \<and> (\<exists>self'. construct B self = Inr (result_of self')
         \<and> (satisfiable (result_of self')
              \<longleftrightarrow> (\<exists>bid \<in> set (open_branches self'). \<not> is_closed (branches self' bid)))
         \<and> result_open_branches (result_of self') = length (open_branches self')
         \<and> result_closed_branches (result_of self') = length (closed_branches self'))"
proof (intro conjI impI)
  assume "\<not> branch_count self < max_branching_factor self"
  then show "construct B self = Inr (result_of self)"
    by (simp add: construct_def)
next
  show "construct_loop B self max_iterations = Inr (self, max_iterations)"
    by simp
next
  assume "\<not> branch_count self < max_branching_factor self"
  then show "construct_loop B self i = Inr (self, i)"
    by simp
next
  assume "\<not> i < max_iterations"
  then show "construct_loop B self i = Inr (self, i)"
    by simp
next
  obtain self' i where "construct_loop B self 0 = Inr (self', i)"
    using construct_loop_bound[of B self 0] by blast
  then have "construct B self = Inr (result_of self')" by (simp add: construct_def)
  moreover have "satisfiable (result_of self')
              \<longleftrightarrow> (\<exists>bid \<in> set (open_branches self'). \<not> is_closed (branches self' bid))"
    using collect_models_nonempty[of self' "open_branches self'" "[]"]
    by (simp add: result_of_def Let_def)
  ultimately show "\<exists>self'. construct B self = Inr (result_of self')
         \<and> (satisfiable (result_of self')
              \<longleftrightarrow> (\<exists>bid \<in> set (open_branches self'). \<not> is_closed (branches self' bid)))
         \<and> result_open_branches (result_of self') = length (open_branches self')
         \<and> result_closed_branches (result_of self') = length (closed_branches self')"
    by (intro exI[of _ self']) (simp add: result_of_def Let_def)
qed


theorem cap_reached_returns_ordinary_result_witness:
  "construct example_base capped = Inr (result_of capped)
   \<and> construct_loop example_base capped max_iterations = Inr (capped, max_iterations)
   \<and> construct_loop example_base capped 7 = Inr (capped, 7)
   \<and> construct_loop example_base two_atoms 1000 = Inr (two_atoms, 1000)
   \<and> (\<exists>self'. construct example_base capped = Inr (result_of self')
         \<and> (satisfiable (result_of self')
              \<longleftrightarrow> (\<exists>bid \<in> set (open_branches self'). \<not> is_closed (branches self' bid))))"
proof -
  have h: "\<not> branch_count capped < max_branching_factor capped"
    by (simp add: capped_def engine_defs)
  have h': "\<not> (1000::nat) < max_iterations"
    by (simp add: max_iterations_def)
  from cap_reached_returns_ordinary_result[of capped example_base 7] h
       cap_reached_returns_ordinary_result[of two_atoms example_base 1000] h'
  show ?thesis by blast
qed


subsection \<open>The signed formulas of a theory\<close>

text \<open>
  C10. The parser rejects the empty string, which is no formula of the surface syntax.
  Then, for statements whose signs are among the six valid ones,
  \<^verbatim>\<open>check_satisfiability\<close> passes to the tableau exactly the statements with a
  parseable formula that is not a comment, in order, with \<open>t\<close>, \<open>f\<close>, \<open>e\<close> kept and
  \<open>m\<close>, \<open>n\<close>, \<open>v\<close> turned into \<open>t\<close>; with no such statement it returns
  \<open>(True, [])\<close> and builds no tableau, and otherwise it builds the tableau from that
  list.
\<close>

theorem check_satisfiability_passes_usable_statements:
  "parse [] = None \<longrightarrow>
   ((\<forall>stmt \<in> set statements. stmt_sign stmt \<in> dom coerced_sign) \<longrightarrow>
      collect_formulas parse statements =
        map (\<lambda>stmt. SignedFormula (the (coerced_sign (stmt_sign stmt)))
                       (the (parse (the (stmt_formula stmt)))))
          (filter (usable parse) statements))
   \<and> (filter (usable parse) statements = [] \<longrightarrow>
        check_satisfiability parse run_tableau statements = (True, [], None))
   \<and> (filter (usable parse) statements \<noteq> [] \<longrightarrow>
        check_satisfiability parse run_tableau statements =
          (fst (run_tableau (collect_formulas parse statements)),
           snd (run_tableau (collect_formulas parse statements)),
           Some (collect_formulas parse statements)))
   \<and> (usable parse stmt \<longrightarrow> stmt_sign stmt \<in> {''m'', ''n'', ''v''} \<longrightarrow>
        map sign (collect_formulas parse [stmt]) = [Sign_t])"
proof (intro conjI impI)
  assume p: "parse [] = None"
  {
    assume "\<forall>stmt \<in> set statements. stmt_sign stmt \<in> dom coerced_sign"
    then show "collect_formulas parse statements =
          map (\<lambda>stmt. SignedFormula (the (coerced_sign (stmt_sign stmt)))
                         (the (parse (the (stmt_formula stmt)))))
            (filter (usable parse) statements)"
      by (simp add: collect_formulas_filter[of parse, OF p] sign_map_coerced)
  next
    assume "filter (usable parse) statements = []"
    then show "check_satisfiability parse run_tableau statements = (True, [], None)"
      by (simp add: check_satisfiability_def collect_formulas_filter[of parse, OF p])
  next
    assume "filter (usable parse) statements \<noteq> []"
    then show "check_satisfiability parse run_tableau statements =
            (fst (run_tableau (collect_formulas parse statements)),
             snd (run_tableau (collect_formulas parse statements)),
             Some (collect_formulas parse statements))"
      by (simp add: check_satisfiability_def collect_formulas_filter[of parse, OF p] Let_def
               split: prod.splits)
  next
    assume u: "usable parse stmt" and sg: "stmt_sign stmt \<in> {''m'', ''n'', ''v''}"
    have "collect_formulas parse [stmt] =
            map (\<lambda>stmt. SignedFormula
                           (case sign_map (stmt_sign stmt) of Some s \<Rightarrow> s | None \<Rightarrow> Sign_t)
                           (the (parse (the (stmt_formula stmt)))))
              (filter (usable parse) [stmt])"
      by (rule collect_formulas_filter[of parse, OF p])
    also have "\<dots> = [SignedFormula Sign_t (the (parse (the (stmt_formula stmt))))]"
      using u sg by (auto simp add: sign_map_def)
    finally show "map sign (collect_formulas parse [stmt]) = [Sign_t]"
      by (simp del: collect_formulas.simps)
  }
qed

theorem check_satisfiability_passes_usable_statements_witness:
  "collect_formulas example_parser example_statements
     = [SignedFormula Sign_t human, SignedFormula Sign_f human]
   \<and> check_satisfiability example_parser reports_satisfiable (take 1 (drop 1 example_statements))
       = (True, [], None)
   \<and> check_satisfiability example_parser reports_unsatisfiable example_statements
       = (False, [], Some [SignedFormula Sign_t human, SignedFormula Sign_f human])"
proof -
  have h0: "example_parser [] = None"
    by (simp add: example_parser_def)
  have h1: "\<forall>stmt \<in> set example_statements. stmt_sign stmt \<in> dom coerced_sign"
    by (simp add: example_statements_def coerced_sign_def)
  have f: "filter (usable example_parser) example_statements
             = [example_statements ! 0, example_statements ! 3]"
    by (simp add: example_statements_def usable_def example_parser_def startswith_def)
  have h2: "filter (usable example_parser) (take 1 (drop 1 example_statements)) = []"
    by (simp add: example_statements_def usable_def example_parser_def startswith_def)
  have h3: "filter (usable example_parser) example_statements \<noteq> []"
    by (simp add: f)
  have c: "collect_formulas example_parser example_statements
     = [SignedFormula Sign_t human, SignedFormula Sign_f human]"
    using check_satisfiability_passes_usable_statements
            [of example_parser example_statements reports_unsatisfiable
                "example_statements ! 0"] h0 h1
    by (simp add: f) (simp add: example_statements_def coerced_sign_def example_parser_def)
  from check_satisfiability_passes_usable_statements
            [of example_parser "take 1 (drop 1 example_statements)" reports_satisfiable
                "example_statements ! 0"] h0 h2
  have e: "check_satisfiability example_parser reports_satisfiable (take 1 (drop 1 example_statements))
       = (True, [], None)" by blast
  from check_satisfiability_passes_usable_statements
            [of example_parser example_statements reports_unsatisfiable
                "example_statements ! 0"] h0 h3
  have "check_satisfiability example_parser reports_unsatisfiable example_statements
       = (False, [], Some (collect_formulas example_parser example_statements))"
    by (simp add: reports_unsatisfiable_def)
  with c e show ?thesis by simp
qed

end
